theory Spec2Isabelle
  imports Main "HOL-Library.Sublist" "HOL-Library.Char_ord" "HOL-Library.AList"
begin

section \<open>Document Time Tracker: the tracker, its store and its key resolver\<close>

text \<open>
  The development follows the extension's three scripts: the background service worker
  (\<^verbatim>\<open>background.js\<close>: \<^verbatim>\<open>trackActiveTab\<close>, \<^verbatim>\<open>recordSession\<close>, \<^verbatim>\<open>generateDocKey\<close>,
  the tab listeners), the popup (\<^verbatim>\<open>popup.js\<close>: its own \<^verbatim>\<open>generateDocKey\<close>), the
  store class \<^verbatim>\<open>IndexedDBManager\<close> (\<^verbatim>\<open>db/indexedDb.js\<close>) and the dashboard's
  \<^verbatim>\<open>deleteDocument\<close> (\<^verbatim>\<open>dashboard/app.js\<close>).

  JavaScript exceptions are values of the type \<open>error\<close>; a function that can throw returns
  \<open>error + 'a\<close>, with \<open>Inl\<close> the exception.
\<close>

datatype error = TypeError | RangeError

subsection \<open>Strings\<close>

text \<open>
  Host names and paths of a parsed URL are ASCII, so a JavaScript string is a \<open>char list\<close>
  here. \<^verbatim>\<open>s.startsWith(p)\<close> is \<open>prefix p s\<close>; \<^verbatim>\<open>s.includes(p)\<close> is \<open>str_includes s p\<close>.
\<close>

definition isLower :: "char \<Rightarrow> bool" where
  "isLower c = (CHR ''a'' \<le> c \<and> c \<le> CHR ''z'')"

definition isUpper :: "char \<Rightarrow> bool" where
  "isUpper c = (CHR ''A'' \<le> c \<and> c \<le> CHR ''Z'')"

definition isDigit :: "char \<Rightarrow> bool" where
  "isDigit c = (CHR ''0'' \<le> c \<and> c \<le> CHR ''9'')"

definition isAlpha :: "char \<Rightarrow> bool" where
  "isAlpha c = (isLower c \<or> isUpper c)"

definition toLower :: "char \<Rightarrow> char" where
  "toLower c = (if isUpper c then char_of (of_char c + (32::nat)) else c)"

fun str_includes :: "string \<Rightarrow> string \<Rightarrow> bool" where
  "str_includes [] p = (p = [])"
| "str_includes (c # cs) p = (prefix p (c # cs) \<or> str_includes cs p)"

subsection \<open>The regular expressions of the resolver\<close>

text \<open>
  \<^verbatim>\<open>[a-zA-Z0-9-_]\<close>: letters, digits, hyphen and underscore.
  \<^verbatim>\<open>[a-z]\<close> is \<open>isLower\<close>, \<^verbatim>\<open>[a-z0-9]\<close> is \<open>isLowerDigit\<close>.
\<close>

definition idChar :: "char \<Rightarrow> bool" where
  "idChar c = (isLower c \<or> isUpper c \<or> isDigit c \<or> c = CHR ''-'' \<or> c = CHR ''_'')"

definition isLowerDigit :: "char \<Rightarrow> bool" where
  "isLowerDigit c = (isLower c \<or> isDigit c)"

text \<open>
  \<^verbatim>\<open>s.match(/LIT(CLS+)/)\<close>, capture group 1: the search is not anchored, so it tries
  every start position from the left; at a position the literal must be there and be
  followed by at least one character of the class; the group is the longest such run
  (\<^verbatim>\<open>+\<close> is greedy and nothing follows it). \<open>None\<close> is JavaScript's \<^verbatim>\<open>null\<close>.
\<close>

fun match_lit_class :: "string \<Rightarrow> (char \<Rightarrow> bool) \<Rightarrow> string \<Rightarrow> string option" where
  "match_lit_class lit cls [] = None"
| "match_lit_class lit cls (c # cs) =
     (let run = takeWhile cls (drop (length lit) (c # cs))
      in if prefix lit (c # cs) \<and> run \<noteq> [] then Some run
         else match_lit_class lit cls cs)"

text \<open>
  \<^verbatim>\<open>s.match(/\/([a-z]+)\/([a-z0-9]+)/)\<close>, groups 1 and 2. The first group is followed by
  a slash, which is not in its class, so only its longest run can match.
\<close>

fun match_office :: "string \<Rightarrow> (string \<times> string) option" where
  "match_office [] = None"
| "match_office (c # cs) =
     (let a = takeWhile isLower cs;
          r = dropWhile isLower cs;
          b = takeWhile isLowerDigit (drop 1 r)
      in if c = CHR ''/'' \<and> a \<noteq> [] \<and> take 1 r = ''/'' \<and> b \<noteq> [] then Some (a, b)
         else match_office cs)"

subsection \<open>The platform's URL constructor\<close>

text \<open>
  \<^verbatim>\<open>new URL(s)\<close> is the browser's parser (WHATWG URL Standard), called without a base:
  it throws \<^verbatim>\<open>TypeError\<close> when \<open>s\<close> is not an absolute URL. Only \<^verbatim>\<open>hostname\<close> and
  \<^verbatim>\<open>pathname\<close> of the result are read by the extension.

  \<open>URL_new\<close> follows the standard's parser for these two components. The input is
  stripped of leading and trailing control characters and spaces and of tabs and newlines.
  A scheme is required. For the special schemes the authority follows any run of slashes;
  the host is percent-decoded, lower-cased, checked for forbidden characters and, when it
  ends in a number, read as an IPv4 address; a bracketed host is an IPv6 address. Other
  schemes have an authority only after \<^verbatim>\<open>//\<close>, with an opaque host, and an opaque path
  when no slash follows the scheme. A hierarchical path loses its dot segments and has
  the characters of the path percent-encode set escaped. A string is a list of bytes.
  Two parts of the standard are left out: the IDNA processing of international host
  names (non-ASCII bytes and \<^verbatim>\<open>xn--\<close> labels are kept as written) and the Windows
  drive letter rules of \<^verbatim>\<open>file:\<close> paths.
\<close>

record URL =
  hostname :: string
  pathname :: string

definition isSpaceOrControl :: "char \<Rightarrow> bool" where
  "isSpaceOrControl c = (c \<le> CHR '' '')"

definition isTabOrNewline :: "char \<Rightarrow> bool" where
  "isTabOrNewline c = (c = CHR 0x09 \<or> c = CHR 0x0A \<or> c = CHR 0x0D)"

definition strip_input :: "string \<Rightarrow> string" where
  "strip_input s =
     filter (\<lambda>c. \<not> isTabOrNewline c)
       (rev (dropWhile isSpaceOrControl (rev (dropWhile isSpaceOrControl s))))"

definition schemeChar :: "char \<Rightarrow> bool" where
  "schemeChar c = (isAlpha c \<or> isDigit c \<or> c = CHR ''+'' \<or> c = CHR ''-'' \<or> c = CHR ''.'')"

definition parse_scheme :: "string \<Rightarrow> (string \<times> string) option" where
  "parse_scheme s =
     (case s of
        [] \<Rightarrow> None
      | c # _ \<Rightarrow>
          if \<not> isAlpha c then None
          else (case dropWhile schemeChar s of
                  [] \<Rightarrow> None
                | d # r \<Rightarrow> if d = CHR '':'' then Some (map toLower (takeWhile schemeChar s), r)
                           else None))"

definition isSlash :: "char \<Rightarrow> bool" where
  "isSlash c = (c = CHR ''/'' \<or> c = CHR 0x5C)"

definition endsPath :: "char \<Rightarrow> bool" where
  "endsPath c = (c = CHR ''?'' \<or> c = CHR ''#'')"

definition endsAuthority :: "bool \<Rightarrow> char \<Rightarrow> bool" where
  "endsAuthority special c = (c = CHR ''/'' \<or> endsPath c \<or> (special \<and> c = CHR 0x5C))"

text \<open>Hexadecimal digits and percent-escapes.\<close>

definition isHexDigit :: "char \<Rightarrow> bool" where
  "isHexDigit c =
     (isDigit c \<or> (CHR ''a'' \<le> c \<and> c \<le> CHR ''f'') \<or> (CHR ''A'' \<le> c \<and> c \<le> CHR ''F''))"

definition hexValue :: "char \<Rightarrow> int" where
  "hexValue c =
     (if isDigit c then of_char c - 48
      else if isLower c then of_char c - 87
      else of_char c - 55)"

definition hexDigit :: "bool \<Rightarrow> int \<Rightarrow> char" where
  "hexDigit upper n =
     (if n < 10 then char_of (48 + n) else char_of ((if upper then 55 else 87) + n))"

definition percent_encode :: "(char \<Rightarrow> bool) \<Rightarrow> string \<Rightarrow> string" where
  "percent_encode inSet s =
     concat (map (\<lambda>c. if inSet c
                       then [CHR ''%'', hexDigit True (of_char c div 16),
                             hexDigit True (of_char c mod 16)]
                       else [c]) s)"

fun percent_decode :: "string \<Rightarrow> string" where
  "percent_decode (p # h # l # cs) =
     (if p = CHR ''%'' \<and> isHexDigit h \<and> isHexDigit l
      then char_of (hexValue h * 16 + hexValue l) # percent_decode cs
      else p # percent_decode (h # l # cs))"
| "percent_decode cs = cs"

definition c0ControlSet :: "char \<Rightarrow> bool" where
  "c0ControlSet c = (c < CHR '' '' \<or> CHR 0x7E < c)"

definition pathEncodeSet :: "char \<Rightarrow> bool" where
  "pathEncodeSet c = (c0ControlSet c \<or> c \<in> set '' #<>?^`{}'' \<or> c = CHR 0x22)"

text \<open>Splitting at every separator; the pieces of the empty string are one empty piece.\<close>

fun split_on :: "(char \<Rightarrow> bool) \<Rightarrow> string \<Rightarrow> string list" where
  "split_on sep [] = [[]]"
| "split_on sep (c # cs) =
     (if sep c then [] # split_on sep cs
      else (case split_on sep cs of
              [] \<Rightarrow> [[c]]
            | x # xs \<Rightarrow> (c # x) # xs))"

definition join :: "string \<Rightarrow> string list \<Rightarrow> string" where
  "join sep xs = (case xs of [] \<Rightarrow> [] | x # r \<Rightarrow> x @ concat (map (\<lambda>y. sep @ y) r))"

definition decimal :: "string \<Rightarrow> int" where
  "decimal ds = foldl (\<lambda>n c. 10 * n + (of_char c - 48)) 0 ds"

text \<open>IPv4: up to four numbers in decimal, octal or hexadecimal, the last one filling up.\<close>

definition parse_ipv4_number :: "string \<Rightarrow> int option" where
  "parse_ipv4_number s =
     (if s = [] then None
      else if 2 \<le> length s \<and> (take 2 s = ''0x'' \<or> take 2 s = ''0X'') then
        (if list_all isHexDigit (drop 2 s)
         then Some (foldl (\<lambda>n c. 16 * n + hexValue c) 0 (drop 2 s)) else None)
      else if 2 \<le> length s \<and> take 1 s = ''0'' then
        (if list_all (\<lambda>c. CHR ''0'' \<le> c \<and> c \<le> CHR ''7'') (drop 1 s)
         then Some (foldl (\<lambda>n c. 8 * n + hexValue c) 0 (drop 1 s)) else None)
      else if list_all isDigit s then Some (decimal s) else None)"

definition dot_parts :: "string \<Rightarrow> string list" where
  "dot_parts host =
     (let parts = split_on (\<lambda>c. c = CHR ''.'') host
      in if last parts = [] \<and> 1 < length parts then butlast parts else parts)"

definition ends_in_number :: "string \<Rightarrow> bool" where
  "ends_in_number host =
     (let l = last (dot_parts host)
      in (l \<noteq> [] \<and> list_all isDigit l) \<or> parse_ipv4_number l \<noteq> None)"

definition decimal_string :: "int \<Rightarrow> string" where
  \<comment> \<open>of a number below 1000\<close>
  "decimal_string n =
     (if 100 \<le> n then [char_of (48 + n div 100), char_of (48 + n div 10 mod 10), char_of (48 + n mod 10)]
      else if 10 \<le> n then [char_of (48 + n div 10), char_of (48 + n mod 10)]
      else [char_of (48 + n)])"

definition parse_ipv4 :: "string \<Rightarrow> string option" where
  "parse_ipv4 host =
     (case those (map parse_ipv4_number (dot_parts host)) of
        None \<Rightarrow> None
      | Some ns \<Rightarrow>
          if 4 < length ns \<or> list_ex (\<lambda>n. 255 < n) (butlast ns)
             \<or> 256 ^ (5 - length ns) \<le> last ns
          then None
          else (let v = last ns
                        + sum_list (map (\<lambda>(i, n). n * 256 ^ (3 - i))
                                      (zip [0 ..< length ns - 1] (butlast ns)))
                in Some (join ''.'' (map (\<lambda>k. decimal_string (v div 256 ^ k mod 256))
                                       [3, 2, 1, 0]))))"

text \<open>
  IPv6: groups of up to four hexadecimal digits between colons, at most one \<^verbatim>\<open>::\<close>
  standing for one or more zero groups, and possibly a dotted IPv4 tail for the last two
  groups. The result is the eight groups.
\<close>

fun split_double_colon :: "string \<Rightarrow> string \<times> string option" where
  "split_double_colon (a # b # cs) =
     (if a = CHR '':'' \<and> b = CHR '':'' then ([], Some cs)
      else (case split_double_colon (b # cs) of (l, r) \<Rightarrow> (a # l, r)))"
| "split_double_colon cs = (cs, None)"

definition parse_ipv6_group :: "string \<Rightarrow> int option" where
  "parse_ipv6_group g =
     (if g \<noteq> [] \<and> length g \<le> 4 \<and> list_all isHexDigit g
      then Some (foldl (\<lambda>n c. 16 * n + hexValue c) 0 g) else None)"

definition parse_ipv4_in_ipv6 :: "string \<Rightarrow> int list option" where
  "parse_ipv4_in_ipv6 g =
     (let ps = split_on (\<lambda>c. c = CHR ''.'') g
      in if length ps = 4
            \<and> list_all (\<lambda>p. p \<noteq> [] \<and> list_all isDigit p \<and> (length p = 1 \<or> take 1 p \<noteq> ''0'')
                            \<and> length p \<le> 3 \<and> decimal p \<le> 255) ps
         then Some [decimal (ps ! 0) * 256 + decimal (ps ! 1),
                    decimal (ps ! 2) * 256 + decimal (ps ! 3)]
         else None)"

definition parse_ipv6_groups :: "bool \<Rightarrow> string \<Rightarrow> int list option" where
  \<comment> \<open>the groups of one side of the address; only the last side may end in IPv4\<close>
  "parse_ipv6_groups final s =
     (if s = [] then Some []
      else (let gs = split_on (\<lambda>c. c = CHR '':'') s
            in if final \<and> CHR ''.'' \<in> set (last gs)
               then (case (those (map parse_ipv6_group (butlast gs)), parse_ipv4_in_ipv6 (last gs)) of
                       (Some xs, Some ys) \<Rightarrow> Some (xs @ ys)
                     | _ \<Rightarrow> None)
               else those (map parse_ipv6_group gs)))"

definition parse_ipv6 :: "string \<Rightarrow> int list option" where
  "parse_ipv6 s =
     (case split_double_colon s of
        (l, None) \<Rightarrow>
          (case parse_ipv6_groups True l of
             Some xs \<Rightarrow> if length xs = 8 then Some xs else None
           | None \<Rightarrow> None)
      | (l, Some r) \<Rightarrow>
          (case (parse_ipv6_groups False l, parse_ipv6_groups True r) of
             (Some xs, Some ys) \<Rightarrow>
               if length xs + length ys \<le> 7
               then Some (xs @ replicate (8 - length xs - length ys) 0 @ ys) else None
           | _ \<Rightarrow> None))"

definition hex_string :: "int \<Rightarrow> string" where
  \<comment> \<open>of a number below 65536, without leading zeros\<close>
  "hex_string n =
     (let ds = dropWhile (\<lambda>c. c = CHR ''0'')
                 (map (\<lambda>k. hexDigit False (n div 16 ^ k mod 16)) [3, 2, 1, 0])
      in if ds = [] then ''0'' else ds)"

definition longest_zero_run :: "int list \<Rightarrow> nat \<times> nat" where
  \<comment> \<open>start and length of the first longest run of zero groups\<close>
  "longest_zero_run xs =
     fold (\<lambda>i (b, l). let n = length (takeWhile (\<lambda>x. x = 0) (drop i xs))
                       in if l < n then (i, n) else (b, l))
       [0 ..< length xs] (0, 0)"

definition serialize_ipv6 :: "int list \<Rightarrow> string" where
  "serialize_ipv6 xs =
     (case longest_zero_run xs of
        (b, l) \<Rightarrow>
          if l < 2 then join '':'' (map hex_string xs)
          else join '':'' (map hex_string (take b xs)) @ ''::''
               @ join '':'' (map hex_string (drop (b + l) xs)))"

definition parse_bracketed :: "string \<Rightarrow> string option" where
  "parse_bracketed h =
     (if last h = CHR '']''
      then map_option (\<lambda>xs. ''['' @ serialize_ipv6 xs @ '']'') (parse_ipv6 (butlast (drop 1 h)))
      else None)"

text \<open>The host of a special scheme, and the opaque host of any other scheme.\<close>

definition forbiddenHostChar :: "char \<Rightarrow> bool" where
  "forbiddenHostChar c =
     (c = CHR 0x00 \<or> isTabOrNewline c \<or> c \<in> set '' #/:<>?@[]^|'' \<or> c = CHR 0x5C)"

definition forbiddenDomainChar :: "char \<Rightarrow> bool" where
  "forbiddenDomainChar c =
     (forbiddenHostChar c \<or> c < CHR '' '' \<or> c = CHR ''%'' \<or> c = CHR 0x7F)"

definition parse_domain_host :: "string \<Rightarrow> string option" where
  "parse_domain_host h =
     (if take 1 h = ''['' then parse_bracketed h
      else (let d = map toLower (percent_decode h)
            in if d = [] \<or> list_ex forbiddenDomainChar d then None
               else if ends_in_number d then parse_ipv4 d
               else Some d))"

definition parse_opaque_host :: "string \<Rightarrow> string option" where
  "parse_opaque_host h =
     (if take 1 h = ''['' then parse_bracketed h
      else if list_ex forbiddenHostChar h then None
      else Some (percent_encode c0ControlSet h))"

text \<open>The part of an authority after the last \<^verbatim>\<open>@\<close> (the credentials are dropped).\<close>

fun after_last_at :: "string \<Rightarrow> string" where
  "after_last_at [] = []"
| "after_last_at (c # cs) =
     (if CHR ''@'' \<in> set cs then after_last_at cs
      else if c = CHR ''@'' then cs else c # cs)"

definition valid_port :: "string \<Rightarrow> bool" where
  "valid_port p = (p = [] \<or> (take 1 p = '':'' \<and> list_all isDigit (drop 1 p)
                              \<and> decimal (drop 1 p) \<le> 65535))"

text \<open>Host and port: the port starts at the first colon outside brackets.\<close>

definition split_host_port :: "string \<Rightarrow> string \<times> string" where
  "split_host_port hp =
     (if take 1 hp = ''['' \<and> CHR '']'' \<in> set hp
      then (takeWhile (\<lambda>c. c \<noteq> CHR '']'') hp @ '']'',
            drop 1 (dropWhile (\<lambda>c. c \<noteq> CHR '']'') hp))
      else (takeWhile (\<lambda>c. c \<noteq> CHR '':'') hp, dropWhile (\<lambda>c. c \<noteq> CHR '':'') hp))"

text \<open>
  The host of an authority; \<open>None\<close> is the parser's failure. Credentials or a port
  without a host are failures too.
\<close>

definition parse_host :: "bool \<Rightarrow> string \<Rightarrow> string option" where
  "parse_host special auth =
     (case split_host_port (after_last_at auth) of
        (h, p) \<Rightarrow>
          if \<not> valid_port p \<or> (h = [] \<and> (p \<noteq> [] \<or> CHR ''@'' \<in> set auth)) then None
          else if special then parse_domain_host h
          else parse_opaque_host h)"

text \<open>
  The path up to the query or fragment. A hierarchical path is read segment by segment:
  a double-dot segment removes the segment before it, a single-dot segment is skipped,
  and either leaves an empty segment when it is the last.
\<close>

definition single_dot :: "string \<Rightarrow> bool" where
  "single_dot s = (map toLower s \<in> {''.'', ''%2e''})"

definition double_dot :: "string \<Rightarrow> bool" where
  "double_dot s = (map toLower s \<in> {''..'', ''.%2e'', ''%2e.'', ''%2e%2e''})"

fun path_segments :: "string list \<Rightarrow> string list \<Rightarrow> string list" where
  \<comment> \<open>the second argument is the path so far, last segment first\<close>
  "path_segments [] out = out"
| "path_segments (s # ss) out =
     (if double_dot s then path_segments ss (if ss = [] then [] # tl out else tl out)
      else if single_dot s then path_segments ss (if ss = [] then [] # out else out)
      else path_segments ss (percent_encode pathEncodeSet s # out))"

definition parse_path :: "bool \<Rightarrow> string \<Rightarrow> string" where
  "parse_path special rest =
     (let p = takeWhile (\<lambda>c. \<not> endsPath c) rest;
          sep = (\<lambda>c. c = CHR ''/'' \<or> (special \<and> c = CHR 0x5C))
      in if p = [] \<and> \<not> special then []
         else (let body = (case p of [] \<Rightarrow> [] | c # cs \<Rightarrow> if sep c then cs else p)
               in concat (map (\<lambda>s. ''/'' @ s) (rev (path_segments (split_on sep body) [])))))"

definition opaque_path :: "string \<Rightarrow> string" where
  "opaque_path rest = percent_encode c0ControlSet (takeWhile (\<lambda>c. \<not> endsPath c) rest)"

definition specialSchemes :: "string list" where
  "specialSchemes = [''http'', ''https'', ''ftp'', ''ws'', ''wss'']"

text \<open>\<^verbatim>\<open>file:\<close> has a host only after two slashes, and \<^verbatim>\<open>localhost\<close> is no host.\<close>

definition parse_file :: "string \<Rightarrow> URL option" where
  "parse_file rest =
     (case rest of
        a # b # r \<Rightarrow>
          if isSlash a \<and> isSlash b then
            (let buf = takeWhile (\<lambda>c. \<not> endsAuthority True c) r
             in if buf = [] then Some \<lparr>hostname = [], pathname = parse_path True r\<rparr>
                else (case parse_domain_host buf of
                        None \<Rightarrow> None
                      | Some h \<Rightarrow>
                          Some \<lparr>hostname = (if h = ''localhost'' then [] else h),
                                pathname = parse_path True
                                             (dropWhile (\<lambda>c. \<not> endsAuthority True c) r)\<rparr>))
          else Some \<lparr>hostname = [], pathname = parse_path True rest\<rparr>
      | _ \<Rightarrow> Some \<lparr>hostname = [], pathname = parse_path True rest\<rparr>)"

definition parse_url :: "string \<Rightarrow> URL option" where
  "parse_url input =
     (case parse_scheme (strip_input input) of
        None \<Rightarrow> None
      | Some (scheme, rest) \<Rightarrow>
          if scheme = ''file'' then parse_file rest
          else if scheme \<in> set specialSchemes then
            (let r = dropWhile isSlash rest
             in case parse_host True (takeWhile (\<lambda>c. \<not> endsAuthority True c) r) of
                  None \<Rightarrow> None
                | Some h \<Rightarrow>
                    Some \<lparr>hostname = h,
                          pathname = parse_path True
                                       (dropWhile (\<lambda>c. \<not> endsAuthority True c) r)\<rparr>)
          else if prefix ''//'' rest then
            (let r = drop 2 rest
             in case parse_host False (takeWhile (\<lambda>c. \<not> endsAuthority False c) r) of
                  None \<Rightarrow> None
                | Some h \<Rightarrow>
                    Some \<lparr>hostname = h,
                          pathname = parse_path False
                                       (dropWhile (\<lambda>c. \<not> endsAuthority False c) r)\<rparr>)
          else if prefix ''/'' rest then Some \<lparr>hostname = [], pathname = parse_path False rest\<rparr>
          else Some \<lparr>hostname = [], pathname = opaque_path rest\<rparr>)"

definition URL_new :: "string \<Rightarrow> error + URL" where
  "URL_new input = (case parse_url input of None \<Rightarrow> Inl TypeError | Some url \<Rightarrow> Inr url)"

subsection \<open>Tabs and the document key\<close>

text \<open>
  A tab as \<^verbatim>\<open>tabs.query\<close> delivers it. The three properties the code reads are optional
  in the browser's API; \<open>None\<close> is \<^verbatim>\<open>undefined\<close>.
\<close>

record Tab =
  tab_id :: "int option"
  tab_url :: "string option"
  tab_title :: "string option"

text \<open>\<^verbatim>\<open>new URL(tab.url)\<close>: the argument is converted to a string first.\<close>

definition url_string :: "Tab \<Rightarrow> string" where
  "url_string tab = (case tab_url tab of None \<Rightarrow> ''undefined'' | Some s \<Rightarrow> s)"

text \<open>The body of the background script's \<^verbatim>\<open>generateDocKey\<close> after the URL is parsed.\<close>

definition docKeyOfURL :: "URL \<Rightarrow> string" where
  "docKeyOfURL url =
     (case (if str_includes (hostname url) ''docs.google.com''
            then match_lit_class ''/document/d/'' idChar (pathname url) else None) of
        Some m \<Rightarrow> ''gdoc_'' @ m
      | None \<Rightarrow>
     (case (if str_includes (hostname url) ''docs.google.com'' \<and> str_includes (pathname url) ''/spreadsheets''
            then match_lit_class ''/spreadsheets/d/'' idChar (pathname url) else None) of
        Some m \<Rightarrow> ''gsheet_'' @ m
      | None \<Rightarrow>
     (case (if str_includes (hostname url) ''office.com'' \<or> str_includes (hostname url) ''office365.com''
            then match_office (pathname url) else None) of
        Some (a, b) \<Rightarrow> ''office_'' @ a @ ''_'' @ b
      | None \<Rightarrow>
     (case (if str_includes (hostname url) ''claude.ai''
            then match_lit_class ''/chat/'' idChar (pathname url) else None) of
        Some m \<Rightarrow> ''claude_'' @ m
      | None \<Rightarrow>
     (case (if str_includes (hostname url) ''chat.openai.com'' \<or> str_includes (hostname url) ''chatgpt.com''
            then match_lit_class ''/c/'' idChar (pathname url) else None) of
        Some m \<Rightarrow> ''chatgpt_'' @ m
      | None \<Rightarrow> ''domain_'' @ hostname url)))))"

definition generateDocKey :: "Tab \<Rightarrow> error + string" where
  "generateDocKey tab =
     (case URL_new (url_string tab) of
        Inl e \<Rightarrow> Inl e
      | Inr url \<Rightarrow> Inr (docKeyOfURL url))"

text \<open>The popup script's own \<^verbatim>\<open>generateDocKey\<close>: three providers, then the fallback.\<close>

definition popup_docKeyOfURL :: "URL \<Rightarrow> string" where
  "popup_docKeyOfURL url =
     (case (if str_includes (hostname url) ''docs.google.com''
            then match_lit_class ''/document/d/'' idChar (pathname url) else None) of
        Some m \<Rightarrow> ''gdoc_'' @ m
      | None \<Rightarrow>
     (case (if str_includes (hostname url) ''docs.google.com'' \<and> str_includes (pathname url) ''/spreadsheets''
            then match_lit_class ''/spreadsheets/d/'' idChar (pathname url) else None) of
        Some m \<Rightarrow> ''gsheet_'' @ m
      | None \<Rightarrow>
     (case (if str_includes (hostname url) ''office.com'' \<or> str_includes (hostname url) ''office365.com''
            then match_office (pathname url) else None) of
        Some (a, b) \<Rightarrow> ''office_'' @ a @ ''_'' @ b
      | None \<Rightarrow> ''domain_'' @ hostname url)))"

definition popup_generateDocKey :: "Tab \<Rightarrow> error + string" where
  "popup_generateDocKey tab =
     (case URL_new (url_string tab) of
        Inl e \<Rightarrow> Inl e
      | Inr url \<Rightarrow> Inr (popup_docKeyOfURL url))"

subsection \<open>The rules of the resolver, read off a URL\<close>

text \<open>
  An id segment of a provider stands at the start of \<open>s\<close> when the provider's marker
  (\<^verbatim>\<open>/document/d/\<close>, say) is there and a character of the id follows it.
  \<open>segment_before lit cls n s\<close>: one stands at one of the first \<open>n\<close> positions of \<open>s\<close>;
  \<open>has_segment\<close>: one stands somewhere in \<open>s\<close>.
\<close>

definition segment_at :: "string \<Rightarrow> (char \<Rightarrow> bool) \<Rightarrow> string \<Rightarrow> bool" where
  "segment_at lit cls s =
     (prefix lit s \<and> (case drop (length lit) s of [] \<Rightarrow> False | c # _ \<Rightarrow> cls c))"

fun segment_before :: "string \<Rightarrow> (char \<Rightarrow> bool) \<Rightarrow> nat \<Rightarrow> string \<Rightarrow> bool" where
  "segment_before lit cls 0 s = False"
| "segment_before lit cls (Suc n) [] = False"
| "segment_before lit cls (Suc n) (c # cs) =
     (segment_at lit cls (c # cs) \<or> segment_before lit cls n cs)"

definition has_segment :: "string \<Rightarrow> (char \<Rightarrow> bool) \<Rightarrow> string \<Rightarrow> bool" where
  "has_segment lit cls s = segment_before lit cls (length s) s"

text \<open>
  \<open>first_segment lit cls path pre ident post\<close>: the path is \<open>pre\<close>, the marker, the id
  and \<open>post\<close>; the id is a whole run of id characters; and no id segment starts
  inside \<open>pre\<close>, so that this one is the first of the path.
\<close>

definition first_segment ::
  "string \<Rightarrow> (char \<Rightarrow> bool) \<Rightarrow> string \<Rightarrow> string \<Rightarrow> string \<Rightarrow> string \<Rightarrow> bool" where
  "first_segment lit cls path pre ident post =
     (path = pre @ lit @ ident @ post \<and> ident \<noteq> [] \<and> list_all cls ident
      \<and> (case post of [] \<Rightarrow> True | c # _ \<Rightarrow> \<not> cls c)
      \<and> \<not> segment_before lit cls (length pre) path)"

text \<open>The same for Office, whose segment is \<^verbatim>\<open>/<app>/<id>\<close>: lower-case letters, then
  lower-case letters and digits.\<close>

definition office_at :: "string \<Rightarrow> bool" where
  "office_at s =
     (case s of
        [] \<Rightarrow> False
      | c # cs \<Rightarrow>
          c = CHR ''/'' \<and> takeWhile isLower cs \<noteq> []
          \<and> (case dropWhile isLower cs of
                d # e # _ \<Rightarrow> d = CHR ''/'' \<and> isLowerDigit e
              | _ \<Rightarrow> False))"

fun office_before :: "nat \<Rightarrow> string \<Rightarrow> bool" where
  "office_before 0 s = False"
| "office_before (Suc n) [] = False"
| "office_before (Suc n) (c # cs) = (office_at (c # cs) \<or> office_before n cs)"

definition has_office :: "string \<Rightarrow> bool" where
  "has_office s = office_before (length s) s"

definition first_office :: "string \<Rightarrow> string \<Rightarrow> string \<Rightarrow> string \<Rightarrow> string \<Rightarrow> bool" where
  "first_office path pre app ident post =
     (path = pre @ ''/'' @ app @ ''/'' @ ident @ post
      \<and> app \<noteq> [] \<and> list_all isLower app \<and> ident \<noteq> [] \<and> list_all isLowerDigit ident
      \<and> (case post of [] \<Rightarrow> True | c # _ \<Rightarrow> \<not> isLowerDigit c)
      \<and> \<not> office_before (length pre) path)"

text \<open>
  The URLs of the supported editors and chats that carry an id: the host name contains
  the provider's domain and the path has an id segment.
\<close>

definition is_gdoc :: "URL \<Rightarrow> bool" where
  "is_gdoc url =
     (str_includes (hostname url) ''docs.google.com''
      \<and> has_segment ''/document/d/'' idChar (pathname url))"

definition is_gsheet :: "URL \<Rightarrow> bool" where
  "is_gsheet url =
     (str_includes (hostname url) ''docs.google.com''
      \<and> has_segment ''/spreadsheets/d/'' idChar (pathname url))"

definition is_office :: "URL \<Rightarrow> bool" where
  "is_office url =
     ((str_includes (hostname url) ''office.com'' \<or> str_includes (hostname url) ''office365.com'')
      \<and> has_office (pathname url))"

definition is_claude :: "URL \<Rightarrow> bool" where
  "is_claude url =
     (str_includes (hostname url) ''claude.ai'' \<and> has_segment ''/chat/'' idChar (pathname url))"

definition is_chatgpt :: "URL \<Rightarrow> bool" where
  "is_chatgpt url =
     ((str_includes (hostname url) ''chat.openai.com''
       \<or> str_includes (hostname url) ''chatgpt.com'')
      \<and> has_segment ''/c/'' idChar (pathname url))"

subsection \<open>The store: two IndexedDB object stores\<close>

text \<open>
  \<^verbatim>\<open>documents\<close> has the key path \<^verbatim>\<open>docKey\<close>: it is a map from the key to the record.
  \<^verbatim>\<open>sessions\<close> has the auto-incremented key \<^verbatim>\<open>id\<close>: it is the list of its records in
  key order, with the key generator's next value. Durations are JavaScript numbers holding
  integers (the tracker only ever passes \<^verbatim>\<open>1000\<close>); they are \<open>int\<close> here.
\<close>

record DocumentRecord =
  doc_docKey :: string
  doc_title :: string
  doc_url :: string
  doc_firstSeen :: string
  doc_lastSeen :: string
  doc_totalTimeMs :: int

record SessionRecord =
  ses_id :: nat
  ses_docKey :: string
  ses_date :: string
  ses_durationMs :: int
  ses_timestamp :: string

record Store =
  documents :: "string \<rightharpoonup> DocumentRecord"
  sessions :: "SessionRecord list"
  nextId :: nat

definition emptyStore :: Store where
  "emptyStore = \<lparr>documents = Map.empty, sessions = [], nextId = 1\<rparr>"

text \<open>
  What IndexedDB guarantees of every state of the \<^verbatim>\<open>sessions\<close> store: the records are
  in the order of their primary keys, no two share a key, and the generator is ahead of
  all of them.
\<close>

definition wf_store :: "Store \<Rightarrow> bool" where
  "wf_store st =
     (sorted_wrt (<) (map ses_id (sessions st))
      \<and> list_all (\<lambda>s. ses_id s < nextId st) (sessions st))"

text \<open>
  The argument object of \<^verbatim>\<open>IndexedDBManager.recordSession\<close>, and the readings of
  \<^verbatim>\<open>new Date().toISOString()\<close> that one call stores (the reading for \<^verbatim>\<open>lastSeen\<close> in
  the object literal is overwritten two lines later by the next one).
\<close>

record SessionArgs =
  arg_docKey :: string
  arg_title :: string
  arg_date :: string
  arg_durationMs :: int
  arg_url :: string

record Clock =
  clock_firstSeen :: string
  clock_lastSeen :: string
  clock_timestamp :: string

text \<open>
  \<^verbatim>\<open>IndexedDBManager.recordSession\<close>: one read-write transaction over both stores, taken
  to commit. \<^verbatim>\<open>docStore.put\<close> files the record under its own \<^verbatim>\<open>docKey\<close>;
  \<^verbatim>\<open>sessionStore.add\<close> draws the key from the generator.
\<close>

definition db_recordSession :: "SessionArgs \<Rightarrow> Clock \<Rightarrow> Store \<Rightarrow> Store" where
  "db_recordSession a clk st =
     (let docRecord =
            (case documents st (arg_docKey a) of
               Some r \<Rightarrow> r
             | None \<Rightarrow> \<lparr>doc_docKey = arg_docKey a, doc_title = arg_title a, doc_url = arg_url a,
                        doc_firstSeen = clock_firstSeen clk, doc_lastSeen = clock_firstSeen clk,
                        doc_totalTimeMs = 0\<rparr>);
          docRecord' = docRecord\<lparr>doc_title := arg_title a,
                                 doc_lastSeen := clock_lastSeen clk,
                                 doc_totalTimeMs := doc_totalTimeMs docRecord + arg_durationMs a\<rparr>;
          sessionRecord = \<lparr>ses_id = nextId st, ses_docKey = arg_docKey a, ses_date = arg_date a,
                           ses_durationMs = arg_durationMs a,
                           ses_timestamp = clock_timestamp clk\<rparr>
      in st\<lparr>documents := (documents st)(doc_docKey docRecord' \<mapsto> docRecord'),
            sessions := sessions st @ [sessionRecord],
            nextId := nextId st + 1\<rparr>)"

text \<open>\<^verbatim>\<open>getDocumentStats\<close> and \<^verbatim>\<open>getSessionsByDocKey\<close> (the index \<^verbatim>\<open>docKey\<close>).\<close>

definition getDocumentStats :: "string \<Rightarrow> Store \<Rightarrow> DocumentRecord option" where
  "getDocumentStats docKey st = documents st docKey"

definition getSessionsByDocKey :: "string \<Rightarrow> Store \<Rightarrow> SessionRecord list" where
  "getSessionsByDocKey docKey st = filter (\<lambda>s. ses_docKey s = docKey) (sessions st)"

text \<open>
  IndexedDB orders string keys by their code units, a proper prefix before its extensions.
  \<open>key_le a b\<close> is \<open>a \<le> b\<close> in that order.
\<close>

fun key_le :: "string \<Rightarrow> string \<Rightarrow> bool" where
  "key_le [] b = True"
| "key_le (x # xs) [] = False"
| "key_le (x # xs) (y # ys) = (x < y \<or> (x = y \<and> key_le xs ys))"

text \<open>
  The index \<^verbatim>\<open>date\<close>: the records by date, and by primary key among equal dates.
  Inserting the records in key order, each one behind the entries that are not later,
  builds it.
\<close>

fun index_insert :: "SessionRecord \<Rightarrow> SessionRecord list \<Rightarrow> SessionRecord list" where
  "index_insert s [] = [s]"
| "index_insert s (t # ts) =
     (if key_le (ses_date t) (ses_date s) then t # index_insert s ts else s # t # ts)"

definition index_date :: "SessionRecord list \<Rightarrow> SessionRecord list" where
  "index_date ss = foldl (\<lambda>ix s. index_insert s ix) [] ss"

text \<open>
  The cursor loop of \<^verbatim>\<open>deleteOldSessions\<close> and \<^verbatim>\<open>deleteDocument\<close>: the first argument
  is what the cursor still has to visit; \<^verbatim>\<open>cursor.delete()\<close> removes the record with the
  cursor's primary key, \<^verbatim>\<open>cursor.continue()\<close> moves on, and a \<^verbatim>\<open>null\<close> cursor ends it.
\<close>

fun cursor_delete_loop :: "SessionRecord list \<Rightarrow> SessionRecord list \<Rightarrow> SessionRecord list" where
  "cursor_delete_loop [] ss = ss"
| "cursor_delete_loop (c # cs) ss =
     cursor_delete_loop cs (filter (\<lambda>s. ses_id s \<noteq> ses_id c) ss)"

text \<open>
  \<^verbatim>\<open>deleteOldSessions(cutoffDate)\<close>: a cursor on the index \<^verbatim>\<open>date\<close> over
  \<^verbatim>\<open>IDBKeyRange.upperBound(cutoffDate)\<close>, whose bound is included.
\<close>

definition deleteOldSessions :: "string \<Rightarrow> Store \<Rightarrow> Store" where
  "deleteOldSessions cutoffDate st =
     st\<lparr>sessions :=
          cursor_delete_loop
            (filter (\<lambda>s. key_le (ses_date s) cutoffDate) (index_date (sessions st)))
            (sessions st)\<rparr>"

text \<open>
  The dashboard's \<^verbatim>\<open>deleteDocument(docKey)\<close>. The first argument is the user's answer to
  the \<^verbatim>\<open>confirm\<close> dialog. The transaction deletes the document and walks a cursor on the
  index \<^verbatim>\<open>docKey\<close> over \<^verbatim>\<open>IDBKeyRange.only(docKey)\<close>; it is taken to commit. Reloading
  the table and the alerts are presentation.
\<close>

definition deleteDocument :: "bool \<Rightarrow> string \<Rightarrow> Store \<Rightarrow> Store" where
  "deleteDocument confirmed docKey st =
     (if \<not> confirmed then st
      else st\<lparr>documents := (documents st)(docKey := None),
              sessions :=
                cursor_delete_loop (filter (\<lambda>s. ses_docKey s = docKey) (sessions st))
                  (sessions st)\<rparr>)"

definition recordAll :: "(SessionArgs \<times> Clock) list \<Rightarrow> Store \<Rightarrow> Store" where
  \<comment> \<open>successive calls of \<^verbatim>\<open>recordSession\<close>, each awaited before the next\<close>
  "recordAll calls st = fold (\<lambda>(a, clk). db_recordSession a clk) calls st"

subsection \<open>Dates\<close>

text \<open>
  A \<^verbatim>\<open>Date\<close> is its time value, the milliseconds since 1970-01-01T00:00Z. The getters
  and setters without \<^verbatim>\<open>UTC\<close> in their name work on local time, the time value plus
  the zone's offset \<open>tza\<close> (in milliseconds, positive east of Greenwich); \<open>tza\<close> is a
  parameter, fixed for the zone (no daylight-saving change is modelled).
  Days are converted to and from the civil calendar by the usual era arithmetic.
\<close>

definition msPerDay :: int where
  "msPerDay = 86400000"

definition days_from_civil :: "int \<Rightarrow> int \<Rightarrow> int \<Rightarrow> int" where
  "days_from_civil y m d =
     (let y' = (if m \<le> 2 then y - 1 else y);
          era = y' div 400;
          yoe = y' - era * 400;
          doy = (153 * (if m > 2 then m - 3 else m + 9) + 2) div 5 + d - 1;
          doe = yoe * 365 + yoe div 4 - yoe div 100 + doy
      in era * 146097 + doe - 719468)"

definition civil_from_days :: "int \<Rightarrow> int \<times> int \<times> int" where
  "civil_from_days z =
     (let z' = z + 719468;
          era = z' div 146097;
          doe = z' - era * 146097;
          yoe = (doe - doe div 1460 + doe div 36524 - doe div 146096) div 365;
          doy = doe - (365 * yoe + yoe div 4 - yoe div 100);
          mp = (5 * doy + 2) div 153;
          d = doy - (153 * mp + 2) div 5 + 1;
          m = (if mp < 10 then mp + 3 else mp - 9)
      in (yoe + era * 400 + (if m \<le> 2 then 1 else 0), m, d))"

definition daysInMonth :: "int \<Rightarrow> int \<Rightarrow> int" where
  "daysInMonth y m = days_from_civil (if m = 12 then y + 1 else y) (if m = 12 then 1 else m + 1) 1
                     - days_from_civil y m 1"

text \<open>
  \<^verbatim>\<open>new Date(dateString)\<close> for the date-only form \<^verbatim>\<open>YYYY-MM-DD\<close>, the only form the
  store's \<^verbatim>\<open>date\<close> fields have: midnight UTC of that day. \<open>None\<close> is the invalid date
  (time value \<^verbatim>\<open>NaN\<close>); what a browser makes of other strings is not modelled.
\<close>

definition Date_parse :: "string \<Rightarrow> int option" where
  "Date_parse s =
     (let y = decimal (take 4 s);
          m = decimal (take 2 (drop 5 s));
          d = decimal (take 2 (drop 8 s))
      in if length s = 10 \<and> list_all isDigit (take 4 s) \<and> s ! 4 = CHR ''-''
            \<and> list_all isDigit (take 2 (drop 5 s)) \<and> s ! 7 = CHR ''-''
            \<and> list_all isDigit (drop 8 s)
            \<and> 1 \<le> m \<and> m \<le> 12 \<and> 1 \<le> d \<and> d \<le> daysInMonth y m
         then Some (days_from_civil y m d * msPerDay)
         else None)"

definition getDay :: "int \<Rightarrow> int \<Rightarrow> int" where
  "getDay tza t = ((t + tza) div msPerDay + 4) mod 7"

definition getDate :: "int \<Rightarrow> int \<Rightarrow> int" where
  "getDate tza t = snd (snd (civil_from_days ((t + tza) div msPerDay)))"

text \<open>
  \<^verbatim>\<open>setDate(dt)\<close>: the day of the month of the local time is replaced, the local time
  of day kept; a value below 1 reaches into the months before. The result is the new
  time value.
\<close>

definition setDate :: "int \<Rightarrow> int \<Rightarrow> int \<Rightarrow> int" where
  "setDate tza t dt =
     (let local = t + tza;
          (y, m, d) = civil_from_days (local div msPerDay);
          day = days_from_civil y m 1 + dt - 1
      in day * msPerDay + local mod msPerDay - tza)"

definition digit :: "int \<Rightarrow> char" where
  "digit n = char_of (48 + nat (n mod 10))"

definition pad2 :: "int \<Rightarrow> string" where
  "pad2 n = [digit (n div 10), digit n]"

definition pad3 :: "int \<Rightarrow> string" where
  "pad3 n = [digit (n div 100), digit (n div 10), digit n]"

definition pad4 :: "int \<Rightarrow> string" where
  "pad4 n = [digit (n div 1000), digit (n div 100), digit (n div 10), digit n]"

definition pad6 :: "int \<Rightarrow> string" where
  "pad6 n = [digit (n div 100000), digit (n div 10000)] @ pad4 n"

text \<open>\<^verbatim>\<open>toISOString()\<close>, in UTC; years outside 0..9999 take a sign and six digits.\<close>

definition toISOString :: "int \<Rightarrow> string" where
  "toISOString t =
     (let (y, m, d) = civil_from_days (t div msPerDay);
          ms = t mod msPerDay
      in (if 0 \<le> y \<and> y \<le> 9999 then pad4 y
          else (if y < 0 then ''-'' else ''+'') @ pad6 \<bar>y\<bar>)
         @ ''-'' @ pad2 m @ ''-'' @ pad2 d @ ''T'' @ pad2 (ms div 3600000) @ '':''
         @ pad2 (ms div 60000 mod 60) @ '':'' @ pad2 (ms div 1000 mod 60) @ ''.''
         @ pad3 (ms mod 1000) @ ''Z'')"

text \<open>
  \<^verbatim>\<open>getWeekKey(dateString)\<close>. On an invalid date every getter gives \<^verbatim>\<open>NaN\<close> and
  \<^verbatim>\<open>toISOString\<close> throws \<^verbatim>\<open>RangeError\<close>. \<^verbatim>\<open>.split("T")[0]\<close> is the text before
  the first \<^verbatim>\<open>T\<close>.
\<close>

definition getWeekKey :: "int \<Rightarrow> string \<Rightarrow> error + string" where
  "getWeekKey tza dateString =
     (case Date_parse dateString of
        None \<Rightarrow> Inl RangeError
      | Some date \<Rightarrow>
          (let firstDay = setDate tza date (getDate tza date - getDay tza date)
           in Inr (takeWhile (\<lambda>c. c \<noteq> CHR ''T'') (toISOString firstDay))))"

text \<open>
  \<^verbatim>\<open>getTimeBreakdown(docKey, period)\<close>. The result object is the list of its
  properties in the order of their creation. \<^verbatim>\<open>!breakdown[key]\<close> holds for a missing
  property and for \<^verbatim>\<open>0\<close>.
\<close>

definition bucket_key :: "int \<Rightarrow> string \<Rightarrow> string \<Rightarrow> error + string" where
  "bucket_key tza period date =
     (if period = ''week'' then getWeekKey tza date
      else if period = ''month'' then Inr (take 7 date)
      else Inr date)"

definition bucket_add :: "string \<Rightarrow> int \<Rightarrow> (string \<times> int) list \<Rightarrow> (string \<times> int) list" where
  "bucket_add key durationMs breakdown =
     (let b0 = (if map_of breakdown key = None \<or> map_of breakdown key = Some 0
                then AList.update key 0 breakdown else breakdown)
      in AList.update key (the (map_of b0 key) + durationMs) b0)"

fun breakdown_loop ::
  "int \<Rightarrow> string \<Rightarrow> SessionRecord list \<Rightarrow> (string \<times> int) list \<Rightarrow> error + (string \<times> int) list" where
  "breakdown_loop tza period [] breakdown = Inr breakdown"
| "breakdown_loop tza period (session # rest) breakdown =
     (case bucket_key tza period (ses_date session) of
        Inl e \<Rightarrow> Inl e
      | Inr key \<Rightarrow>
          breakdown_loop tza period rest (bucket_add key (ses_durationMs session) breakdown))"

definition getTimeBreakdown :: "int \<Rightarrow> string \<Rightarrow> string \<Rightarrow> Store \<Rightarrow> error + (string \<times> int) list" where
  "getTimeBreakdown tza docKey period st =
     breakdown_loop tza period (getSessionsByDocKey docKey st) []"

subsection \<open>The poller of the background script\<close>

text \<open>
  \<^verbatim>\<open>tabAccumulatedTime\<close> is an object keyed by tab id; with the store it is the state
  the background script works on.
\<close>

record Accumulator =
  seconds :: nat
  tab :: Tab

record System =
  tabAccumulatedTime :: "int \<rightharpoonup> Accumulator"
  db :: Store

definition MIN_RECORD_SECONDS :: nat where
  "MIN_RECORD_SECONDS = 10"

definition internalUrl :: "string \<Rightarrow> bool" where
  "internalUrl u =
     (prefix ''chrome://'' u \<or> prefix ''about:'' u \<or> prefix ''edge://'' u
      \<or> prefix ''chrome-extension://'' u \<or> prefix ''moz-extension://'' u)"

text \<open>
  The background script's \<^verbatim>\<open>recordSession(tab)\<close>: the key is resolved first, and an
  exception of the resolver leaves before the store is called. \<open>today\<close> is
  \<^verbatim>\<open>new Date().toISOString().split("T")[0]\<close>. The poller calls it only with a tab
  whose title and URL are present.
\<close>

definition recordSession :: "Tab \<Rightarrow> string \<Rightarrow> Clock \<Rightarrow> Store \<Rightarrow> error + Store" where
  "recordSession tb today clk st =
     (case generateDocKey tb of
        Inl e \<Rightarrow> Inl e
      | Inr docKey \<Rightarrow>
          Inr (db_recordSession
                 \<lparr>arg_docKey = docKey,
                  arg_title = (case tab_title tb of None \<Rightarrow> ''undefined'' | Some t \<Rightarrow> t),
                  arg_date = today,
                  arg_durationMs = 1000,
                  arg_url = url_string tb\<rparr> clk st))"

text \<open>
  \<^verbatim>\<open>trackActiveTab\<close>, one tick. The first argument is the answer of \<^verbatim>\<open>tabs.query\<close>.
  Everything is inside \<^verbatim>\<open>try\<close>/\<^verbatim>\<open>catch\<close>: an exception (of \<^verbatim>\<open>startsWith\<close> on a
  missing URL, or of \<^verbatim>\<open>recordSession\<close>) is logged and the tick ends with the state as
  it is by then. Every path re-arms the alarm, which is not part of the state.
\<close>

definition trackActiveTab :: "Tab list \<Rightarrow> string \<Rightarrow> Clock \<Rightarrow> System \<Rightarrow> System" where
  "trackActiveTab query today clk sys =
     (case query of
        [] \<Rightarrow> sys
      | activeTab # _ \<Rightarrow>
          (case (tab_id activeTab, tab_title activeTab) of
             (Some tabId, Some title) \<Rightarrow>
               if tabId = 0 \<or> title = [] then sys
               else (case tab_url activeTab of
                       None \<Rightarrow> sys
                     | Some u \<Rightarrow>
                         if internalUrl u then sys
                         else
                           (let entry = (case tabAccumulatedTime sys tabId of
                                           None \<Rightarrow> \<lparr>seconds = 0, tab = activeTab\<rparr>
                                         | Some e \<Rightarrow> e);
                                entry' = entry\<lparr>seconds := seconds entry + 1, tab := activeTab\<rparr>;
                                sys' = sys\<lparr>tabAccumulatedTime :=
                                             (tabAccumulatedTime sys)(tabId \<mapsto> entry')\<rparr>
                            in if seconds entry' \<ge> MIN_RECORD_SECONDS
                               then (case recordSession activeTab today clk (db sys') of
                                       Inl e \<Rightarrow> sys'
                                     | Inr st \<Rightarrow> sys'\<lparr>db := st\<rparr>)
                               else sys'))
           | _ \<Rightarrow> sys))"

text \<open>The listeners \<^verbatim>\<open>tabs.onActivated\<close> and \<^verbatim>\<open>tabs.onRemoved\<close>.\<close>

definition onActivated :: "System \<Rightarrow> System" where
  "onActivated sys = sys\<lparr>tabAccumulatedTime := Map.empty\<rparr>"

definition onRemoved :: "int \<Rightarrow> System \<Rightarrow> System" where
  "onRemoved tabId sys = sys\<lparr>tabAccumulatedTime := (tabAccumulatedTime sys)(tabId := None)\<rparr>"

text \<open>
  The guards of \<^verbatim>\<open>trackActiveTab\<close> that a tab has to pass to be counted: an id and a
  title that are not falsy, and a URL outside the browser's internal schemes.
\<close>

definition trackable :: "Tab \<Rightarrow> bool" where
  "trackable t =
     (case (tab_id t, tab_title t, tab_url t) of
        (Some i, Some title, Some u) \<Rightarrow> i \<noteq> 0 \<and> title \<noteq> [] \<and> \<not> internalUrl u
      | _ \<Rightarrow> False)"

text \<open>The seconds accumulated for a tab; a tab without an entry is idle, at 0.\<close>

definition accumulatedSeconds :: "System \<Rightarrow> int \<Rightarrow> nat" where
  "accumulatedSeconds sys tabId =
     (case tabAccumulatedTime sys tabId of None \<Rightarrow> 0 | Some e \<Rightarrow> seconds e)"

subsection \<open>Concrete tabs, stores and poller states\<close>

definition example_tab :: Tab where
  "example_tab = \<lparr>tab_id = Some 7, tab_url = Some ''https://example.com/page'',
                  tab_title = Some ''Example''\<rparr>"

definition gdoc_tab :: Tab where
  "gdoc_tab = \<lparr>tab_id = Some 8,
               tab_url = Some ''https://docs.google.com/document/d/XYZ123/edit'',
               tab_title = Some ''Notes''\<rparr>"

definition gsheet_tab :: Tab where
  "gsheet_tab = \<lparr>tab_id = Some 12,
                 tab_url = Some ''https://docs.google.com/spreadsheets/d/a-b_c/edit#gid=0'',
                 tab_title = Some ''Budget''\<rparr>"

definition office_tab :: Tab where
  "office_tab = \<lparr>tab_id = Some 13, tab_url = Some ''https://www.office.com/launch/word?auth=2'',
                 tab_title = Some ''Word''\<rparr>"

definition workspace_tab :: Tab where
  "workspace_tab = \<lparr>tab_id = Some 14,
                    tab_url = Some ''https://docs.google.com/a/example.com/document/d/XYZ123/edit'',
                    tab_title = Some ''Notes''\<rparr>"

definition slides_tab :: Tab where
  "slides_tab = \<lparr>tab_id = Some 15,
                 tab_url = Some ''https://docs.google.com/presentation/d/abc/edit'',
                 tab_title = Some ''Slides''\<rparr>"

definition claude_new_tab :: Tab where
  "claude_new_tab = \<lparr>tab_id = Some 16, tab_url = Some ''https://claude.ai/new'',
                     tab_title = Some ''Claude''\<rparr>"

definition blank_tab :: Tab where
  "blank_tab = \<lparr>tab_id = Some 17, tab_url = Some [], tab_title = Some ''New Tab''\<rparr>"

definition claude_tab :: Tab where
  "claude_tab = \<lparr>tab_id = Some 9, tab_url = Some ''https://claude.ai/chat/abc123'',
                 tab_title = Some ''Chat''\<rparr>"

definition chatgpt_tab :: Tab where
  "chatgpt_tab = \<lparr>tab_id = Some 10, tab_url = Some ''https://chatgpt.com/c/abc-123'',
                  tab_title = Some ''Chat''\<rparr>"

definition malformed_tab :: Tab where
  "malformed_tab = \<lparr>tab_id = Some 11, tab_url = Some ''not a url'',
                    tab_title = Some ''Untitled''\<rparr>"

definition example_clock :: Clock where
  "example_clock = \<lparr>clock_firstSeen = ''2024-01-08T09:00:00.000Z'',
                    clock_lastSeen = ''2024-01-08T09:00:00.001Z'',
                    clock_timestamp = ''2024-01-08T09:00:00.001Z''\<rparr>"

text \<open>
  The poller at start, and with two windows: the active tab of one at nine seconds, the
  active tab of the other at four.
\<close>

definition idle_system :: System where
  "idle_system = \<lparr>tabAccumulatedTime = Map.empty, db = emptyStore\<rparr>"

definition busy_system :: System where
  "busy_system =
     \<lparr>tabAccumulatedTime = [7 \<mapsto> \<lparr>seconds = 9, tab = example_tab\<rparr>,
                             8 \<mapsto> \<lparr>seconds = 4, tab = gdoc_tab\<rparr>],
      db = emptyStore\<rparr>"

text \<open>A tab whose URL does not parse, one second below the threshold.\<close>

definition stuck_system :: System where
  "stuck_system =
     \<lparr>tabAccumulatedTime = [11 \<mapsto> \<lparr>seconds = 9, tab = malformed_tab\<rparr>], db = emptyStore\<rparr>"

text \<open>A tab that has not been given a URL yet, one second below the threshold.\<close>

definition blank_system :: System where
  "blank_system =
     \<lparr>tabAccumulatedTime = [17 \<mapsto> \<lparr>seconds = 9, tab = blank_tab\<rparr>], db = emptyStore\<rparr>"

text \<open>Sessions of one document on a Sunday and on the Monday after it.\<close>

definition week_calls :: "(SessionArgs \<times> Clock) list" where
  "week_calls =
     map (\<lambda>day. (\<lparr>arg_docKey = ''gdoc_abc'', arg_title = ''Notes'', arg_date = day,
                   arg_durationMs = 1000,
                   arg_url = ''https://docs.google.com/document/d/abc/edit''\<rparr>, example_clock))
       [''2024-01-07'', ''2024-01-08'']"

definition week_store :: Store where
  "week_store = recordAll week_calls emptyStore"

text \<open>Two sessions of one page, four days apart: a state the sweeper can meet.\<close>

definition sweep_calls :: "(SessionArgs \<times> Clock) list" where
  "sweep_calls =
     map (\<lambda>(day, stamp).
            (\<lparr>arg_docKey = ''domain_example.com'', arg_title = ''Example'', arg_date = day,
              arg_durationMs = 1000, arg_url = ''https://example.com/page''\<rparr>,
             \<lparr>clock_firstSeen = stamp, clock_lastSeen = stamp, clock_timestamp = stamp\<rparr>))
       [(''2024-01-01'', ''2024-01-01T09:00:00.000Z''),
        (''2024-01-05'', ''2024-01-05T09:00:00.000Z'')]"

definition sweep_store :: Store where
  "sweep_store = recordAll sweep_calls emptyStore"

text \<open>Three sessions of one document on one day.\<close>

definition abc_calls :: "(SessionArgs \<times> Clock) list" where
  "abc_calls =
     map (\<lambda>d. (\<lparr>arg_docKey = ''gdoc_abc'', arg_title = ''Notes'', arg_date = ''2024-01-01'',
                 arg_durationMs = d, arg_url = ''https://docs.google.com/document/d/abc/edit''\<rparr>,
               \<lparr>clock_firstSeen = ''2024-01-01T10:00:00.000Z'',
                 clock_lastSeen = ''2024-01-01T10:00:00.000Z'',
                 clock_timestamp = ''2024-01-01T10:00:00.000Z''\<rparr>))
       [1000, 2000, 3000]"

text \<open>Both together: a store with two documents.\<close>

definition two_docs_store :: Store where
  "two_docs_store = recordAll (abc_calls @ sweep_calls) emptyStore"

section \<open>The store\<close>

subsection \<open>The key order and the date index\<close>

lemma key_le_refl: "key_le a a"
  by (induction a) auto

lemma key_le_trans: "key_le a b \<Longrightarrow> key_le b c \<Longrightarrow> key_le a c"
proof (induction a b arbitrary: c rule: key_le.induct)
  case (1 b)
  then show ?case by simp
next
  case (2 x xs)
  then show ?case by simp
next
  case (3 x xs y ys)
  then show ?case by (cases c) auto
qed

lemma set_index_insert: "set (index_insert s ix) = insert s (set ix)"
  by (induction ix) auto

lemma set_foldl_index_insert:
  "set (foldl (\<lambda>ix s. index_insert s ix) acc ss) = set acc \<union> set ss"
  by (induction ss arbitrary: acc) (auto simp: set_index_insert)

lemma set_index_date: "set (index_date ss) = set ss"
  by (simp add: index_date_def set_foldl_index_insert)

subsection \<open>The well-formed stores\<close>

lemma wf_store_distinct: "wf_store st \<Longrightarrow> distinct (map ses_id (sessions st))"
  unfolding wf_store_def using strict_sorted_iff by blast

lemma wf_store_filter:
  "wf_store st \<Longrightarrow> wf_store (st\<lparr>sessions := filter P (sessions st)\<rparr>)"
  by (auto simp: wf_store_def sorted_wrt_map sorted_wrt_filter list_all_iff)

lemma wf_store_emptyStore: "wf_store emptyStore"
  by (simp add: wf_store_def emptyStore_def)

lemma wf_store_db_recordSession: "wf_store st \<Longrightarrow> wf_store (db_recordSession a clk st)"
  by (auto simp: wf_store_def db_recordSession_def Let_def sorted_wrt_append list_all_iff
      intro: less_SucI)

lemma recordAll_Nil: "recordAll [] st = st"
  by (simp add: recordAll_def)

lemma recordAll_Cons:
  "recordAll ((a, clk) # calls) st = recordAll calls (db_recordSession a clk st)"
  by (simp add: recordAll_def)

lemma wf_store_recordAll: "wf_store st \<Longrightarrow> wf_store (recordAll calls st)"
proof (induction calls arbitrary: st)
  case Nil
  then show ?case by (simp add: recordAll_Nil)
next
  case (Cons c calls)
  obtain a clk where c: "c = (a, clk)" by (cases c)
  show ?case unfolding c recordAll_Cons
    by (rule Cons.IH) (rule wf_store_db_recordSession[OF Cons.prems])
qed

subsection \<open>The cursor loop\<close>

lemma cursor_delete_loop_filter:
  "cursor_delete_loop cs ss = filter (\<lambda>s. ses_id s \<notin> ses_id ` set cs) ss"
  by (induction cs arbitrary: ss) (auto intro: filter_cong)

lemma distinct_ids_member:
  assumes "distinct (map ses_id ss)" "s \<in> set ss"
  shows "ses_id s \<in> ses_id ` {t \<in> set ss. P t} \<longleftrightarrow> P s"
proof -
  have "inj_on ses_id (set ss)" using assms(1) by (simp add: distinct_map)
  then show ?thesis using assms(2) by (auto dest: inj_onD)
qed

lemma cursor_delete_loop_selected:
  assumes "distinct (map ses_id ss)" "set cs = {t \<in> set ss. P t}"
  shows "cursor_delete_loop cs ss = filter (\<lambda>s. \<not> P s) ss"
  unfolding cursor_delete_loop_filter assms(2)
  by (rule filter_cong) (simp_all add: distinct_ids_member[OF assms(1)])

lemma sessions_deleteOldSessions:
  assumes "wf_store st"
  shows "sessions (deleteOldSessions c st)
           = filter (\<lambda>s. \<not> key_le (ses_date s) c) (sessions st)"
proof -
  have "set (filter (\<lambda>s. key_le (ses_date s) c) (index_date (sessions st)))
        = {t \<in> set (sessions st). key_le (ses_date t) c}"
    by (simp add: set_index_date)
  from cursor_delete_loop_selected[OF wf_store_distinct[OF assms] this]
  show ?thesis by (simp add: deleteOldSessions_def)
qed

lemma wf_store_deleteOldSessions: "wf_store st \<Longrightarrow> wf_store (deleteOldSessions c st)"
proof -
  assume wf: "wf_store st"
  have "deleteOldSessions c st = st\<lparr>sessions := sessions (deleteOldSessions c st)\<rparr>"
    by (simp add: deleteOldSessions_def)
  then show ?thesis using wf_store_filter[OF wf] sessions_deleteOldSessions[OF wf] by metis
qed

lemma wf_sweep_store: "wf_store sweep_store"
  unfolding sweep_store_def by (rule wf_store_recordAll[OF wf_store_emptyStore])

lemma sessions_sweep_store:
  "sessions sweep_store =
     [\<lparr>ses_id = 1, ses_docKey = ''domain_example.com'', ses_date = ''2024-01-01'',
       ses_durationMs = 1000, ses_timestamp = ''2024-01-01T09:00:00.000Z''\<rparr>,
      \<lparr>ses_id = 2, ses_docKey = ''domain_example.com'', ses_date = ''2024-01-05'',
       ses_durationMs = 1000, ses_timestamp = ''2024-01-05T09:00:00.000Z''\<rparr>]"
  by (simp add: sweep_store_def sweep_calls_def recordAll_def db_recordSession_def
      emptyStore_def Let_def)

subsection \<open>Retention sweep\<close>

text \<open>
  C4, as the code has it. In every store state \<^verbatim>\<open>deleteOldSessions(cutoff)\<close> deletes
  exactly the sessions whose date is at or before the cutoff and keeps all the others, in
  their order; and a second run with the same or an \<^emph>\<open>earlier\<close> cutoff changes nothing
  more. (A later cutoff reaches sessions the first run kept: see the counterexample.)
\<close>

theorem deleteOldSessions_exact:
  assumes "wf_store st"
  shows "sessions (deleteOldSessions cutoff st)
           = filter (\<lambda>s. \<not> key_le (ses_date s) cutoff) (sessions st)
         \<and> (key_le cutoff2 cutoff \<longrightarrow>
              deleteOldSessions cutoff2 (deleteOldSessions cutoff st)
                = deleteOldSessions cutoff st)"
proof -
  let ?st1 = "deleteOldSessions cutoff st"
  have s1: "sessions ?st1 = filter (\<lambda>s. \<not> key_le (ses_date s) cutoff) (sessions st)"
    by (rule sessions_deleteOldSessions[OF assms])
  have wf1: "wf_store ?st1" by (rule wf_store_deleteOldSessions[OF assms])
  have idem: "deleteOldSessions cutoff2 ?st1 = ?st1" if le: "key_le cutoff2 cutoff"
  proof -
    have "sessions (deleteOldSessions cutoff2 ?st1)
            = filter (\<lambda>s. \<not> key_le (ses_date s) cutoff2) (sessions ?st1)"
      by (rule sessions_deleteOldSessions[OF wf1])
    also have "\<dots> = sessions ?st1"
      unfolding s1 by (rule filter_True) (use le key_le_trans in auto)
    finally have "sessions (deleteOldSessions cutoff2 ?st1) = sessions ?st1" .
    moreover have "deleteOldSessions cutoff2 ?st1
                     = ?st1\<lparr>sessions := sessions (deleteOldSessions cutoff2 ?st1)\<rparr>"
      by (simp add: deleteOldSessions_def)
    ultimately show ?thesis by simp
  qed
  show ?thesis using s1 idem by blast
qed

theorem deleteOldSessions_exact_witness:
  "wf_store sweep_store \<and> key_le ''2024-01-01'' ''2024-01-02''
   \<and> map ses_date (sessions (deleteOldSessions ''2024-01-02'' sweep_store)) = [''2024-01-05'']
   \<and> deleteOldSessions ''2024-01-01'' (deleteOldSessions ''2024-01-02'' sweep_store)
       = deleteOldSessions ''2024-01-02'' sweep_store"
proof -
  have le: "key_le ''2024-01-01'' ''2024-01-02''" by simp
  have "map ses_date (filter (\<lambda>s. \<not> key_le (ses_date s) ''2024-01-02'') (sessions sweep_store))
          = [''2024-01-05'']"
    by (simp add: sessions_sweep_store)
  with deleteOldSessions_exact[OF wf_sweep_store, of "''2024-01-02''" "''2024-01-01''"] le
    wf_sweep_store
  show ?thesis by simp
qed

theorem deleteOldSessions_later_cutoff_counterexample:
  "wf_store sweep_store \<and> key_le ''2024-01-02'' ''2024-01-06''
   \<and> map ses_date (sessions (deleteOldSessions ''2024-01-02'' sweep_store)) = [''2024-01-05'']
   \<and> sessions (deleteOldSessions ''2024-01-06'' (deleteOldSessions ''2024-01-02'' sweep_store))
       = []"
proof -
  let ?st1 = "deleteOldSessions ''2024-01-02'' sweep_store"
  have le: "key_le ''2024-01-02'' ''2024-01-06''" by simp
  have wf1: "wf_store ?st1" by (rule wf_store_deleteOldSessions[OF wf_sweep_store])
  have s1: "sessions ?st1
              = filter (\<lambda>s. \<not> key_le (ses_date s) ''2024-01-02'') (sessions sweep_store)"
    by (rule sessions_deleteOldSessions[OF wf_sweep_store])
  have d1: "map ses_date (sessions ?st1) = [''2024-01-05'']"
    unfolding s1 by (simp add: sessions_sweep_store)
  have "map ses_date (sessions (deleteOldSessions ''2024-01-06'' ?st1))
          = filter (\<lambda>d. \<not> key_le d ''2024-01-06'') (map ses_date (sessions ?st1))"
    unfolding sessions_deleteOldSessions[OF wf1] by (simp add: filter_map comp_def)
  also have "\<dots> = []" unfolding d1 by simp
  finally have "sessions (deleteOldSessions ''2024-01-06'' ?st1) = []" by simp
  with le d1 wf_sweep_store show ?thesis by simp
qed

text \<open>
  C6. \<^verbatim>\<open>deleteOldSessions\<close> works on the \<^verbatim>\<open>sessions\<close> store only: in every store state
  and for every cutoff the \<^verbatim>\<open>documents\<close> store is the same after the call, so every
  DocumentRecord keeps its total, title and dates, whatever sessions went.
\<close>

theorem deleteOldSessions_documents:
  "documents (deleteOldSessions cutoff st) = documents st
   \<and> getDocumentStats docKey (deleteOldSessions cutoff st) = getDocumentStats docKey st
   \<and> nextId (deleteOldSessions cutoff st) = nextId st"
  by (simp add: deleteOldSessions_def getDocumentStats_def)

subsection \<open>Recording\<close>

lemma getSessionsByDocKey_db_recordSession:
  "getSessionsByDocKey k (db_recordSession a clk st)
     = getSessionsByDocKey k st
       @ (if arg_docKey a = k
          then [\<lparr>ses_id = nextId st, ses_docKey = arg_docKey a, ses_date = arg_date a,
                 ses_durationMs = arg_durationMs a, ses_timestamp = clock_timestamp clk\<rparr>]
          else [])"
  by (simp add: getSessionsByDocKey_def db_recordSession_def Let_def)

lemma durations_recordAll:
  "list_all (\<lambda>c. arg_docKey (fst c) = k) calls \<Longrightarrow>
   map ses_durationMs (getSessionsByDocKey k (recordAll calls st))
     = map ses_durationMs (getSessionsByDocKey k st) @ map (\<lambda>c. arg_durationMs (fst c)) calls"
proof (induction calls arbitrary: st)
  case Nil
  then show ?case by (simp add: recordAll_Nil)
next
  case (Cons c calls)
  obtain a clk where c: "c = (a, clk)" by (cases c)
  from Cons.prems have k: "arg_docKey a = k"
    and rest: "list_all (\<lambda>c. arg_docKey (fst c) = k) calls"
    by (simp_all add: c)
  show ?case
    unfolding c recordAll_Cons Cons.IH[OF rest]
    by (simp add: getSessionsByDocKey_db_recordSession k)
qed

lemma document_db_recordSession_present:
  assumes "documents st k = Some d" "doc_docKey d = k" "arg_docKey a = k"
  shows "\<exists>d'. documents (db_recordSession a clk st) k = Some d' \<and> doc_docKey d' = k
              \<and> doc_totalTimeMs d' = doc_totalTimeMs d + arg_durationMs a"
  using assms by (simp add: db_recordSession_def Let_def)

lemma document_db_recordSession_absent:
  assumes "documents st k = None" "arg_docKey a = k"
  shows "\<exists>d'. documents (db_recordSession a clk st) k = Some d' \<and> doc_docKey d' = k
              \<and> doc_totalTimeMs d' = arg_durationMs a"
  using assms by (simp add: db_recordSession_def Let_def)

lemma total_recordAll_present:
  "list_all (\<lambda>c. arg_docKey (fst c) = k) calls \<Longrightarrow>
   documents st k = Some d \<Longrightarrow> doc_docKey d = k \<Longrightarrow>
   \<exists>d'. documents (recordAll calls st) k = Some d' \<and> doc_docKey d' = k
        \<and> doc_totalTimeMs d'
            = doc_totalTimeMs d + sum_list (map (\<lambda>c. arg_durationMs (fst c)) calls)"
proof (induction calls arbitrary: st d)
  case Nil
  then show ?case by (simp add: recordAll_Nil)
next
  case (Cons c calls)
  obtain a clk where c: "c = (a, clk)" by (cases c)
  from Cons.prems(1) have k: "arg_docKey a = k"
    and rest: "list_all (\<lambda>c. arg_docKey (fst c) = k) calls"
    by (simp_all add: c)
  from document_db_recordSession_present[OF Cons.prems(2,3) k, of clk]
  obtain d1 where d1: "documents (db_recordSession a clk st) k = Some d1" "doc_docKey d1 = k"
    "doc_totalTimeMs d1 = doc_totalTimeMs d + arg_durationMs a" by blast
  from Cons.IH[OF rest d1(1,2)] d1(3)
  show ?case unfolding c recordAll_Cons by (auto simp: algebra_simps)
qed

lemma total_recordAll_absent:
  assumes "list_all (\<lambda>c. arg_docKey (fst c) = k) calls" "documents st k = None" "calls \<noteq> []"
  shows "\<exists>d'. documents (recordAll calls st) k = Some d' \<and> doc_docKey d' = k
        \<and> doc_totalTimeMs d' = sum_list (map (\<lambda>c. arg_durationMs (fst c)) calls)"
proof -
  from assms(3) obtain a clk rest where calls: "calls = (a, clk) # rest"
    by (cases calls) auto
  from assms(1) have k: "arg_docKey a = k"
    and rest: "list_all (\<lambda>c. arg_docKey (fst c) = k) rest"
    by (simp_all add: calls)
  from document_db_recordSession_absent[OF assms(2) k, of clk]
  obtain d1 where d1: "documents (db_recordSession a clk st) k = Some d1" "doc_docKey d1 = k"
    "doc_totalTimeMs d1 = arg_durationMs a" by blast
  from total_recordAll_present[OF rest d1(1,2)] d1(3)
  show ?thesis unfolding calls recordAll_Cons by auto
qed

text \<open>
  C2. \<^verbatim>\<open>recordSession\<close> is additive. From a store with no DocumentRecord and no
  SessionRecord for a docKey, after N calls with that docKey and the durations d1..dN,
  \<^verbatim>\<open>getSessionsByDocKey\<close> returns exactly N records, carrying d1..dN in this order, and
  (for N > 0, when the DocumentRecord exists) its \<^verbatim>\<open>totalTimeMs\<close> is d1 + .. + dN.
\<close>

theorem recordSession_additive:
  assumes "getDocumentStats docKey st = None"
    and "getSessionsByDocKey docKey st = []"
    and "list_all (\<lambda>c. arg_docKey (fst c) = docKey) calls"
  shows "length (getSessionsByDocKey docKey (recordAll calls st)) = length calls
         \<and> map ses_durationMs (getSessionsByDocKey docKey (recordAll calls st))
             = map (\<lambda>c. arg_durationMs (fst c)) calls
         \<and> (calls \<noteq> [] \<longrightarrow>
              map_option doc_totalTimeMs (getDocumentStats docKey (recordAll calls st))
                = Some (sum_list (map (\<lambda>c. arg_durationMs (fst c)) calls)))"
proof -
  have durs: "map ses_durationMs (getSessionsByDocKey docKey (recordAll calls st))
                = map (\<lambda>c. arg_durationMs (fst c)) calls"
    using durations_recordAll[OF assms(3), of st] assms(2) by simp
  from arg_cong[OF this, of length]
  have len: "length (getSessionsByDocKey docKey (recordAll calls st)) = length calls"
    by simp
  have tot: "map_option doc_totalTimeMs (getDocumentStats docKey (recordAll calls st))
               = Some (sum_list (map (\<lambda>c. arg_durationMs (fst c)) calls))" if "calls \<noteq> []"
    using total_recordAll_absent[OF assms(3) _ that, of st] assms(1)
    by (auto simp: getDocumentStats_def)
  show ?thesis using durs len tot by blast
qed

theorem recordSession_additive_witness:
  "getDocumentStats ''gdoc_abc'' emptyStore = None
   \<and> getSessionsByDocKey ''gdoc_abc'' emptyStore = []
   \<and> list_all (\<lambda>c. arg_docKey (fst c) = ''gdoc_abc'') abc_calls
   \<and> length (getSessionsByDocKey ''gdoc_abc'' (recordAll abc_calls emptyStore)) = 3
   \<and> map_option doc_totalTimeMs (getDocumentStats ''gdoc_abc'' (recordAll abc_calls emptyStore))
       = Some 6000"
proof -
  have h1: "getDocumentStats ''gdoc_abc'' emptyStore = None"
    by (simp add: getDocumentStats_def emptyStore_def)
  have h2: "getSessionsByDocKey ''gdoc_abc'' emptyStore = []"
    by (simp add: getSessionsByDocKey_def emptyStore_def)
  have h3: "list_all (\<lambda>c. arg_docKey (fst c) = ''gdoc_abc'') abc_calls"
    by (simp add: abc_calls_def)
  have ne: "abc_calls \<noteq> []" "length abc_calls = 3"
    "sum_list (map (\<lambda>c. arg_durationMs (fst c)) abc_calls) = 6000"
    by (simp_all add: abc_calls_def)
  from recordSession_additive[OF h1 h2 h3] ne h1 h2 h3 show ?thesis by simp
qed

subsection \<open>Deleting a document\<close>

lemma wf_two_docs_store: "wf_store two_docs_store"
  unfolding two_docs_store_def by (rule wf_store_recordAll[OF wf_store_emptyStore])

lemma docKeys_two_docs_store:
  "map ses_docKey (sessions two_docs_store)
     = [''gdoc_abc'', ''gdoc_abc'', ''gdoc_abc'', ''domain_example.com'', ''domain_example.com'']"
  by (simp add: two_docs_store_def abc_calls_def sweep_calls_def recordAll_def
      db_recordSession_def emptyStore_def Let_def)

lemma length_filter_docKey:
  "length (filter (\<lambda>s. ses_docKey s = k) ss) = length (filter (\<lambda>d. d = k) (map ses_docKey ss))"
  by (induction ss) auto

text \<open>
  C8. In every store state, once the user has confirmed, \<^verbatim>\<open>deleteDocument(docKey)\<close>
  removes the DocumentRecord of that key and leaves no SessionRecord of that key, in the
  one transaction that is one step here; the DocumentRecord and the SessionRecords of
  every other key are what they were.
\<close>

theorem deleteDocument_removes:
  assumes "wf_store st"
  shows "getDocumentStats docKey (deleteDocument True docKey st) = None
         \<and> getSessionsByDocKey docKey (deleteDocument True docKey st) = []
         \<and> (\<forall>other. other \<noteq> docKey \<longrightarrow>
                getDocumentStats other (deleteDocument True docKey st)
                  = getDocumentStats other st
                \<and> getSessionsByDocKey other (deleteDocument True docKey st)
                    = getSessionsByDocKey other st)
         \<and> sessions (deleteDocument True docKey st)
             = filter (\<lambda>s. ses_docKey s \<noteq> docKey) (sessions st)"
proof -
  have "set (filter (\<lambda>s. ses_docKey s = docKey) (sessions st))
        = {t \<in> set (sessions st). ses_docKey t = docKey}"
    by simp
  from cursor_delete_loop_selected[OF wf_store_distinct[OF assms] this]
  have s: "sessions (deleteDocument True docKey st)
             = filter (\<lambda>s. ses_docKey s \<noteq> docKey) (sessions st)"
    by (simp add: deleteDocument_def)
  have d: "documents (deleteDocument True docKey st) = (documents st)(docKey := None)"
    by (simp add: deleteDocument_def)
  have other: "getSessionsByDocKey other (deleteDocument True docKey st)
                 = getSessionsByDocKey other st" if "other \<noteq> docKey" for other
    unfolding getSessionsByDocKey_def s using that by (auto intro: filter_cong)
  have none: "getSessionsByDocKey docKey (deleteDocument True docKey st) = []"
    unfolding getSessionsByDocKey_def s by (simp add: filter_empty_conv)
  show ?thesis using s d other none by (simp add: getDocumentStats_def)
qed

theorem deleteDocument_removes_witness:
  "wf_store two_docs_store \<and> ''domain_example.com'' \<noteq> ''gdoc_abc''
   \<and> length (getSessionsByDocKey ''gdoc_abc'' two_docs_store) = 3
   \<and> getSessionsByDocKey ''gdoc_abc'' (deleteDocument True ''gdoc_abc'' two_docs_store) = []
   \<and> getDocumentStats ''gdoc_abc'' (deleteDocument True ''gdoc_abc'' two_docs_store) = None
   \<and> length (getSessionsByDocKey ''domain_example.com''
               (deleteDocument True ''gdoc_abc'' two_docs_store)) = 2"
proof -
  have ne: "''domain_example.com'' \<noteq> ''gdoc_abc''" by simp
  have l3: "length (getSessionsByDocKey ''gdoc_abc'' two_docs_store) = 3"
    and l2: "length (getSessionsByDocKey ''domain_example.com'' two_docs_store) = 2"
    unfolding getSessionsByDocKey_def length_filter_docKey docKeys_two_docs_store
    by simp_all
  from deleteDocument_removes[OF wf_two_docs_store, of "''gdoc_abc''"] ne l2 l3
    wf_two_docs_store
  show ?thesis by simp
qed

text \<open>Declining the dialog leaves the store as it is.\<close>

lemma deleteDocument_declined: "deleteDocument False docKey st = st"
  by (simp add: deleteDocument_def)

section \<open>The document key\<close>

lemma URL_new_example:
  "URL_new (url_string example_tab) = Inr \<lparr>hostname = ''example.com'', pathname = ''/page''\<rparr>"
  by code_simp

lemma URL_new_malformed: "URL_new (url_string malformed_tab) = Inl TypeError"
  by code_simp

lemma URL_new_error: "URL_new s = Inl e \<Longrightarrow> e = TypeError"
  by (cases e) (auto simp: URL_new_def split: option.splits)

lemma db_trackActiveTab_unresolved:
  "generateDocKey t = Inl e \<Longrightarrow> db (trackActiveTab (t # others) today clk sys) = db sys"
  by (auto simp: trackActiveTab_def recordSession_def Let_def split: option.splits)

text \<open>
  C1, as the code has it. The resolver returns a key exactly for the strings the
  platform's URL parser accepts. For a string that is not a parseable URL
  \<^verbatim>\<open>new URL\<close> throws \<^verbatim>\<open>TypeError\<close> and \<^verbatim>\<open>generateDocKey\<close> lets it pass: no fallback
  key is made. The exception is caught one level up, in the tick, which then records
  nothing.
\<close>

theorem generateDocKey_parsed_or_throws:
  "(URL_new (url_string t) = Inr url \<longrightarrow> generateDocKey t = Inr (docKeyOfURL url))
   \<and> (URL_new (url_string t) = Inl e \<longrightarrow>
        generateDocKey t = Inl TypeError
        \<and> db (trackActiveTab (t # others) today clk sys) = db sys)"
proof (intro conjI impI)
  assume "URL_new (url_string t) = Inr url"
  then show "generateDocKey t = Inr (docKeyOfURL url)"
    by (simp add: generateDocKey_def)
next
  assume e: "URL_new (url_string t) = Inl e"
  with URL_new_error[OF e] show "generateDocKey t = Inl TypeError"
    by (simp add: generateDocKey_def)
  then show "db (trackActiveTab (t # others) today clk sys) = db sys"
    by (rule db_trackActiveTab_unresolved)
qed

theorem generateDocKey_parsed_or_throws_witness:
  "URL_new (url_string example_tab) = Inr \<lparr>hostname = ''example.com'', pathname = ''/page''\<rparr>
   \<and> generateDocKey example_tab
       = Inr (docKeyOfURL \<lparr>hostname = ''example.com'', pathname = ''/page''\<rparr>)
   \<and> URL_new (url_string malformed_tab) = Inl TypeError
   \<and> generateDocKey malformed_tab = Inl TypeError
   \<and> db (trackActiveTab [malformed_tab] ''2024-01-08'' example_clock stuck_system)
       = db stuck_system"
  using generateDocKey_parsed_or_throws[of example_tab
      "\<lparr>hostname = ''example.com'', pathname = ''/page''\<rparr>"]
    generateDocKey_parsed_or_throws[of malformed_tab _ TypeError "[]" "''2024-01-08''"
      example_clock stuck_system]
    URL_new_example URL_new_malformed
  by simp

theorem generateDocKey_throws_counterexample:
  "generateDocKey malformed_tab = Inl TypeError"
  by code_simp

subsection \<open>The regular expressions find the first id segment\<close>

lemma takeWhile_run:
  assumes "list_all cls ident" "rest = [] \<or> \<not> cls (hd rest)"
  shows "takeWhile cls (ident @ rest) = ident"
proof -
  have "takeWhile cls rest = []" using assms(2) by (cases rest) auto
  then show ?thesis using assms(1) by (simp add: list_all_iff)
qed

lemma post_cases: "(case post of [] \<Rightarrow> True | c # _ \<Rightarrow> \<not> cls c) \<longleftrightarrow> (post = [] \<or> \<not> cls (hd post))"
  by (cases post) auto

lemma segment_at_iff:
  "segment_at lit cls s \<longleftrightarrow> prefix lit s \<and> takeWhile cls (drop (length lit) s) \<noteq> []"
  by (cases "drop (length lit) s") (auto simp: segment_at_def)

lemma match_lit_class_Cons:
  "match_lit_class lit cls (c # cs) =
     (if segment_at lit cls (c # cs) then Some (takeWhile cls (drop (length lit) (c # cs)))
      else match_lit_class lit cls cs)"
  by (simp add: segment_at_iff Let_def)

lemma match_lit_class_at_start:
  assumes "ident \<noteq> []" "list_all cls ident" "rest = [] \<or> \<not> cls (hd rest)"
  shows "match_lit_class lit cls (lit @ ident @ rest) = Some ident"
proof -
  from assms(1) obtain c cs where s: "lit @ ident @ rest = c # cs"
    by (cases "lit @ ident @ rest") auto
  have "prefix lit (c # cs)" unfolding s[symmetric] by simp
  moreover have "takeWhile cls (drop (length lit) (c # cs)) = ident"
    unfolding s[symmetric] using takeWhile_run[OF assms(2,3)] by simp
  ultimately show ?thesis unfolding s using assms(1) by simp
qed

lemma match_lit_class_skip:
  "\<not> segment_before lit cls (length pre) (pre @ s) \<Longrightarrow>
   match_lit_class lit cls (pre @ s) = match_lit_class lit cls s"
proof (induction pre)
  case Nil
  then show ?case by simp
next
  case (Cons p pre)
  then show ?case by (simp add: match_lit_class_Cons del: match_lit_class.simps)
qed

lemma match_lit_class_first:
  assumes "first_segment lit cls path pre ident post"
  shows "match_lit_class lit cls path = Some ident"
proof -
  from assms have p: "path = pre @ lit @ ident @ post" and i: "ident \<noteq> []" "list_all cls ident"
    and e: "post = [] \<or> \<not> cls (hd post)"
    and n: "\<not> segment_before lit cls (length pre) (pre @ lit @ ident @ post)"
    by (auto simp: first_segment_def post_cases)
  show ?thesis unfolding p match_lit_class_skip[OF n]
    by (rule match_lit_class_at_start[OF i e])
qed

lemma match_lit_class_None:
  "match_lit_class lit cls s = None \<longleftrightarrow> \<not> has_segment lit cls s"
  unfolding has_segment_def
  by (induction s) (simp_all add: match_lit_class_Cons del: match_lit_class.simps(2))

lemma segment_before_includes:
  "segment_before lit cls n s \<Longrightarrow> prefix p lit \<Longrightarrow> str_includes s p"
proof (induction lit cls n s rule: segment_before.induct)
  case (3 lit cls n c cs)
  then show ?case by (auto simp: segment_at_def dest: prefix_order.trans)
qed simp_all

lemma not_isLower_slash: "\<not> isLower (CHR ''/'')"
  by (simp add: isLower_def)

lemma office_tail_iff:
  "(case r of d # e # _ \<Rightarrow> d = CHR ''/'' \<and> isLowerDigit e | _ \<Rightarrow> False)
   \<longleftrightarrow> take 1 r = ''/'' \<and> takeWhile isLowerDigit (drop 1 r) \<noteq> []"
proof (cases r)
  case Nil
  then show ?thesis by simp
next
  case (Cons d r')
  then show ?thesis by (cases r') auto
qed

lemma office_at_iff:
  "office_at (c # cs) \<longleftrightarrow>
     c = CHR ''/'' \<and> takeWhile isLower cs \<noteq> [] \<and> take 1 (dropWhile isLower cs) = ''/''
     \<and> takeWhile isLowerDigit (drop 1 (dropWhile isLower cs)) \<noteq> []"
  unfolding office_at_def office_tail_iff by simp

lemma match_office_Cons:
  "match_office (c # cs) =
     (if office_at (c # cs)
      then Some (takeWhile isLower cs, takeWhile isLowerDigit (drop 1 (dropWhile isLower cs)))
      else match_office cs)"
  by (simp add: office_at_iff Let_def)

lemma match_office_at_start:
  assumes "a \<noteq> []" "list_all isLower a" "b \<noteq> []" "list_all isLowerDigit b"
    and "rest = [] \<or> \<not> isLowerDigit (hd rest)"
  shows "match_office (''/'' @ a @ ''/'' @ b @ rest) = Some (a, b)"
proof -
  have t: "takeWhile isLower (a @ CHR ''/'' # b @ rest) = a"
    by (rule takeWhile_run[OF assms(2)]) (simp add: not_isLower_slash)
  have d: "dropWhile isLower (a @ CHR ''/'' # b @ rest) = CHR ''/'' # b @ rest"
    using assms(2) by (simp add: list_all_iff dropWhile_append2 not_isLower_slash)
  have b: "takeWhile isLowerDigit (b @ rest) = b"
    by (rule takeWhile_run[OF assms(4,5)])
  have "match_office (CHR ''/'' # a @ CHR ''/'' # b @ rest) = Some (a, b)"
    unfolding match_office.simps t d using assms(1,3) by (simp add: b)
  then show ?thesis by simp
qed

lemma match_office_skip:
  "\<not> office_before (length pre) (pre @ s) \<Longrightarrow> match_office (pre @ s) = match_office s"
proof (induction pre)
  case Nil
  then show ?case by simp
next
  case (Cons p pre)
  then show ?case by (simp add: match_office_Cons del: match_office.simps)
qed

lemma match_office_first:
  assumes "first_office path pre app ident post"
  shows "match_office path = Some (app, ident)"
proof -
  from assms have p: "path = pre @ ''/'' @ app @ ''/'' @ ident @ post"
    and i: "app \<noteq> []" "list_all isLower app" "ident \<noteq> []" "list_all isLowerDigit ident"
    and e: "post = [] \<or> \<not> isLowerDigit (hd post)"
    and n: "\<not> office_before (length pre) (pre @ ''/'' @ app @ ''/'' @ ident @ post)"
    by (auto simp: first_office_def post_cases)
  show ?thesis unfolding p match_office_skip[OF n]
    by (rule match_office_at_start[OF i e])
qed

lemma match_office_None: "match_office s = None \<longleftrightarrow> \<not> has_office s"
  unfolding has_office_def
  by (induction s) (simp_all add: match_office_Cons del: match_office.simps(2))


text \<open>A path that has an id segment has a first one, and conversely.\<close>

lemma segment_before_first:
  "segment_before lit cls n s \<Longrightarrow> \<exists>pre ident post. first_segment lit cls s pre ident post"
proof (induction lit cls n s rule: segment_before.induct)
  case (1 lit cls s)
  then show ?case by simp
next
  case (2 lit cls n)
  then show ?case by simp
next
  case (3 lit cls n c cs)
  show ?case
  proof (cases "segment_at lit cls (c # cs)")
    case True
    let ?r = "drop (length lit) (c # cs)"
    from True have pre: "prefix lit (c # cs)" and ne: "takeWhile cls ?r \<noteq> []"
      by (simp_all add: segment_at_iff)
    from pre have "c # cs = lit @ ?r" by (metis append_eq_conv_conj prefixE)
    then have "c # cs = [] @ lit @ takeWhile cls ?r @ dropWhile cls ?r" by simp
    moreover have "list_all cls (takeWhile cls ?r)"
      by (simp add: list_all_iff) (meson set_takeWhileD)
    moreover have "case dropWhile cls ?r of [] \<Rightarrow> True | d # _ \<Rightarrow> \<not> cls d"
    proof (cases "dropWhile cls ?r")
      case Nil
      show ?thesis unfolding Nil by simp
    next
      case (Cons d ds)
      then have "\<not> cls (hd (dropWhile cls ?r))" using hd_dropWhile[of cls ?r] by simp
      then show ?thesis unfolding Cons by simp
    qed
    ultimately have "first_segment lit cls (c # cs) [] (takeWhile cls ?r) (dropWhile cls ?r)"
      using ne unfolding first_segment_def by simp
    then show ?thesis by blast
  next
    case False
    with "3.prems" have "segment_before lit cls n cs" by simp
    from "3.IH"[OF this] obtain pre ident post
      where f: "first_segment lit cls cs pre ident post" by blast
    then have "first_segment lit cls (c # cs) (c # pre) ident post"
      using False unfolding first_segment_def by auto
    then show ?thesis by blast
  qed
qed

lemma has_segment_first:
  "has_segment lit cls s \<Longrightarrow> \<exists>pre ident post. first_segment lit cls s pre ident post"
  unfolding has_segment_def by (rule segment_before_first)

lemma first_segment_has: "first_segment lit cls s pre ident post \<Longrightarrow> has_segment lit cls s"
proof -
  assume "first_segment lit cls s pre ident post"
  then have "match_lit_class lit cls s \<noteq> None" by (simp add: match_lit_class_first)
  then show ?thesis by (simp add: match_lit_class_None)
qed

lemma is_gsheet_spreadsheets: "is_gsheet url \<Longrightarrow> str_includes (pathname url) ''/spreadsheets''"
  unfolding is_gsheet_def has_segment_def
  by (auto intro: segment_before_includes)

text \<open>The five tests of \<^verbatim>\<open>generateDocKey\<close>, each with its match, in terms of the rules.\<close>

lemma branch_gdoc:
  "\<not> is_gdoc url \<Longrightarrow>
   (if str_includes (hostname url) ''docs.google.com''
    then match_lit_class ''/document/d/'' idChar (pathname url) else None) = None"
  by (auto simp: is_gdoc_def match_lit_class_None)

lemma branch_gdoc_first:
  "is_gdoc url \<Longrightarrow> first_segment ''/document/d/'' idChar (pathname url) pre ident post \<Longrightarrow>
   (if str_includes (hostname url) ''docs.google.com''
    then match_lit_class ''/document/d/'' idChar (pathname url) else None) = Some ident"
  by (auto simp: is_gdoc_def match_lit_class_first)

lemma branch_gsheet:
  "\<not> is_gsheet url \<Longrightarrow>
   (if str_includes (hostname url) ''docs.google.com''
       \<and> str_includes (pathname url) ''/spreadsheets''
    then match_lit_class ''/spreadsheets/d/'' idChar (pathname url) else None) = None"
  by (auto simp: is_gsheet_def match_lit_class_None)

lemma branch_gsheet_first:
  "is_gsheet url \<Longrightarrow>
   first_segment ''/spreadsheets/d/'' idChar (pathname url) pre ident post \<Longrightarrow>
   (if str_includes (hostname url) ''docs.google.com''
       \<and> str_includes (pathname url) ''/spreadsheets''
    then match_lit_class ''/spreadsheets/d/'' idChar (pathname url) else None) = Some ident"
  using is_gsheet_spreadsheets[of url] by (auto simp: is_gsheet_def match_lit_class_first)

lemma branch_office:
  "\<not> is_office url \<Longrightarrow>
   (if str_includes (hostname url) ''office.com'' \<or> str_includes (hostname url) ''office365.com''
    then match_office (pathname url) else None) = None"
  by (auto simp: is_office_def match_office_None)

lemma branch_office_first:
  "is_office url \<Longrightarrow> first_office (pathname url) pre app ident post \<Longrightarrow>
   (if str_includes (hostname url) ''office.com'' \<or> str_includes (hostname url) ''office365.com''
    then match_office (pathname url) else None) = Some (app, ident)"
  by (auto simp: is_office_def match_office_first)

lemma branch_claude:
  "\<not> is_claude url \<Longrightarrow>
   (if str_includes (hostname url) ''claude.ai''
    then match_lit_class ''/chat/'' idChar (pathname url) else None) = None"
  by (auto simp: is_claude_def match_lit_class_None)

lemma branch_claude_first:
  "is_claude url \<Longrightarrow> first_segment ''/chat/'' idChar (pathname url) pre ident post \<Longrightarrow>
   (if str_includes (hostname url) ''claude.ai''
    then match_lit_class ''/chat/'' idChar (pathname url) else None) = Some ident"
  by (auto simp: is_claude_def match_lit_class_first)

lemma branch_chatgpt:
  "\<not> is_chatgpt url \<Longrightarrow>
   (if str_includes (hostname url) ''chat.openai.com''
       \<or> str_includes (hostname url) ''chatgpt.com''
    then match_lit_class ''/c/'' idChar (pathname url) else None) = None"
  by (auto simp: is_chatgpt_def match_lit_class_None)

lemma branch_chatgpt_first:
  "is_chatgpt url \<Longrightarrow> first_segment ''/c/'' idChar (pathname url) pre ident post \<Longrightarrow>
   (if str_includes (hostname url) ''chat.openai.com''
       \<or> str_includes (hostname url) ''chatgpt.com''
    then match_lit_class ''/c/'' idChar (pathname url) else None) = Some ident"
  by (auto simp: is_chatgpt_def match_lit_class_first)

subsection \<open>The rules\<close>

text \<open>
  C10, as the code has it. For every well-formed URL the resolver applies the first of
  these rules that fits, \<^verbatim>\<open><id>\<close> being the first id segment of the path: host name
  contains \<^verbatim>\<open>docs.google.com\<close> and path contains \<^verbatim>\<open>/document/d/<id>\<close>, the key is
  \<^verbatim>\<open>gdoc_<id>\<close>; the same host and \<^verbatim>\<open>/spreadsheets/d/<id>\<close>, \<^verbatim>\<open>gsheet_<id>\<close>;
  host name contains \<^verbatim>\<open>office.com\<close> or \<^verbatim>\<open>office365.com\<close> and path contains
  \<^verbatim>\<open>/<app>/<id>\<close>, \<^verbatim>\<open>office_<app>_<id>\<close>; host name contains \<^verbatim>\<open>claude.ai\<close> and
  path contains \<^verbatim>\<open>/chat/<id>\<close>, \<^verbatim>\<open>claude_<id>\<close>; host name contains
  \<^verbatim>\<open>chat.openai.com\<close> or \<^verbatim>\<open>chatgpt.com\<close> and path contains \<^verbatim>\<open>/c/<id>\<close>,
  \<^verbatim>\<open>chatgpt_<id>\<close>. For any other well-formed URL the key is \<^verbatim>\<open>domain_<hostname>\<close>.
\<close>

theorem generateDocKey_rules:
  assumes "URL_new (url_string t) = Inr url"
  shows "(is_gdoc url \<and> first_segment ''/document/d/'' idChar (pathname url) pre ident post
            \<longrightarrow> generateDocKey t = Inr (''gdoc_'' @ ident))
       \<and> (\<not> is_gdoc url \<and> is_gsheet url
            \<and> first_segment ''/spreadsheets/d/'' idChar (pathname url) pre ident post
            \<longrightarrow> generateDocKey t = Inr (''gsheet_'' @ ident))
       \<and> (\<not> is_gdoc url \<and> \<not> is_gsheet url \<and> is_office url
            \<and> first_office (pathname url) pre app ident post
            \<longrightarrow> generateDocKey t = Inr (''office_'' @ app @ ''_'' @ ident))
       \<and> (\<not> is_gdoc url \<and> \<not> is_gsheet url \<and> \<not> is_office url \<and> is_claude url
            \<and> first_segment ''/chat/'' idChar (pathname url) pre ident post
            \<longrightarrow> generateDocKey t = Inr (''claude_'' @ ident))
       \<and> (\<not> is_gdoc url \<and> \<not> is_gsheet url \<and> \<not> is_office url \<and> \<not> is_claude url
            \<and> is_chatgpt url \<and> first_segment ''/c/'' idChar (pathname url) pre ident post
            \<longrightarrow> generateDocKey t = Inr (''chatgpt_'' @ ident))
       \<and> (\<not> is_gdoc url \<and> \<not> is_gsheet url \<and> \<not> is_office url \<and> \<not> is_claude url
            \<and> \<not> is_chatgpt url
            \<longrightarrow> generateDocKey t = Inr (''domain_'' @ hostname url))"
proof -
  have key: "generateDocKey t = Inr (docKeyOfURL url)"
    using assms by (simp add: generateDocKey_def)
  have c1: "docKeyOfURL url = ''gdoc_'' @ ident"
    if "is_gdoc url" "first_segment ''/document/d/'' idChar (pathname url) pre ident post"
    unfolding docKeyOfURL_def branch_gdoc_first[OF that] by simp
  have c2: "docKeyOfURL url = ''gsheet_'' @ ident"
    if "\<not> is_gdoc url" "is_gsheet url"
      "first_segment ''/spreadsheets/d/'' idChar (pathname url) pre ident post"
    unfolding docKeyOfURL_def branch_gdoc[OF that(1)] branch_gsheet_first[OF that(2,3)]
    by simp
  have c3: "docKeyOfURL url = ''office_'' @ app @ ''_'' @ ident"
    if "\<not> is_gdoc url" "\<not> is_gsheet url" "is_office url"
      "first_office (pathname url) pre app ident post"
    unfolding docKeyOfURL_def branch_gdoc[OF that(1)] branch_gsheet[OF that(2)]
      branch_office_first[OF that(3,4)]
    by simp
  have c4: "docKeyOfURL url = ''claude_'' @ ident"
    if "\<not> is_gdoc url" "\<not> is_gsheet url" "\<not> is_office url" "is_claude url"
      "first_segment ''/chat/'' idChar (pathname url) pre ident post"
    unfolding docKeyOfURL_def branch_gdoc[OF that(1)] branch_gsheet[OF that(2)]
      branch_office[OF that(3)] branch_claude_first[OF that(4,5)]
    by simp
  have c5: "docKeyOfURL url = ''chatgpt_'' @ ident"
    if "\<not> is_gdoc url" "\<not> is_gsheet url" "\<not> is_office url" "\<not> is_claude url"
      "is_chatgpt url" "first_segment ''/c/'' idChar (pathname url) pre ident post"
    unfolding docKeyOfURL_def branch_gdoc[OF that(1)] branch_gsheet[OF that(2)]
      branch_office[OF that(3)] branch_claude[OF that(4)] branch_chatgpt_first[OF that(5,6)]
    by simp
  have c6: "docKeyOfURL url = ''domain_'' @ hostname url"
    if "\<not> is_gdoc url" "\<not> is_gsheet url" "\<not> is_office url" "\<not> is_claude url"
      "\<not> is_chatgpt url"
    unfolding docKeyOfURL_def branch_gdoc[OF that(1)] branch_gsheet[OF that(2)]
      branch_office[OF that(3)] branch_claude[OF that(4)] branch_chatgpt[OF that(5)]
    by simp
  show ?thesis unfolding key using c1 c2 c3 c4 c5 c6 by blast
qed

lemma rules_gdoc_tab:
  "URL_new (url_string gdoc_tab)
     = Inr \<lparr>hostname = ''docs.google.com'', pathname = ''/document/d/XYZ123/edit''\<rparr>
   \<and> is_gdoc \<lparr>hostname = ''docs.google.com'', pathname = ''/document/d/XYZ123/edit''\<rparr>
   \<and> first_segment ''/document/d/'' idChar ''/document/d/XYZ123/edit'' [] ''XYZ123'' ''/edit''"
  by code_simp

lemma rules_workspace_tab:
  "URL_new (url_string workspace_tab)
     = Inr \<lparr>hostname = ''docs.google.com'',
            pathname = ''/a/example.com/document/d/XYZ123/edit''\<rparr>
   \<and> is_gdoc \<lparr>hostname = ''docs.google.com'',
                pathname = ''/a/example.com/document/d/XYZ123/edit''\<rparr>
   \<and> first_segment ''/document/d/'' idChar ''/a/example.com/document/d/XYZ123/edit''
         ''/a/example.com'' ''XYZ123'' ''/edit''"
  by code_simp

lemma rules_gsheet_tab:
  "URL_new (url_string gsheet_tab)
     = Inr \<lparr>hostname = ''docs.google.com'', pathname = ''/spreadsheets/d/a-b_c/edit''\<rparr>
   \<and> \<not> is_gdoc \<lparr>hostname = ''docs.google.com'', pathname = ''/spreadsheets/d/a-b_c/edit''\<rparr>
   \<and> is_gsheet \<lparr>hostname = ''docs.google.com'', pathname = ''/spreadsheets/d/a-b_c/edit''\<rparr>
   \<and> first_segment ''/spreadsheets/d/'' idChar ''/spreadsheets/d/a-b_c/edit'' [] ''a-b_c''
         ''/edit''"
  by code_simp

lemma rules_office_tab:
  "URL_new (url_string office_tab)
     = Inr \<lparr>hostname = ''www.office.com'', pathname = ''/launch/word''\<rparr>
   \<and> \<not> is_gdoc \<lparr>hostname = ''www.office.com'', pathname = ''/launch/word''\<rparr>
   \<and> \<not> is_gsheet \<lparr>hostname = ''www.office.com'', pathname = ''/launch/word''\<rparr>
   \<and> is_office \<lparr>hostname = ''www.office.com'', pathname = ''/launch/word''\<rparr>
   \<and> first_office ''/launch/word'' [] ''launch'' ''word'' []"
  by code_simp

lemma rules_claude_tab:
  "URL_new (url_string claude_tab) = Inr \<lparr>hostname = ''claude.ai'', pathname = ''/chat/abc123''\<rparr>
   \<and> \<not> is_gdoc \<lparr>hostname = ''claude.ai'', pathname = ''/chat/abc123''\<rparr>
   \<and> \<not> is_gsheet \<lparr>hostname = ''claude.ai'', pathname = ''/chat/abc123''\<rparr>
   \<and> \<not> is_office \<lparr>hostname = ''claude.ai'', pathname = ''/chat/abc123''\<rparr>
   \<and> is_claude \<lparr>hostname = ''claude.ai'', pathname = ''/chat/abc123''\<rparr>
   \<and> first_segment ''/chat/'' idChar ''/chat/abc123'' [] ''abc123'' []"
  by code_simp

lemma rules_chatgpt_tab:
  "URL_new (url_string chatgpt_tab) = Inr \<lparr>hostname = ''chatgpt.com'', pathname = ''/c/abc-123''\<rparr>
   \<and> \<not> is_gdoc \<lparr>hostname = ''chatgpt.com'', pathname = ''/c/abc-123''\<rparr>
   \<and> \<not> is_gsheet \<lparr>hostname = ''chatgpt.com'', pathname = ''/c/abc-123''\<rparr>
   \<and> \<not> is_office \<lparr>hostname = ''chatgpt.com'', pathname = ''/c/abc-123''\<rparr>
   \<and> \<not> is_claude \<lparr>hostname = ''chatgpt.com'', pathname = ''/c/abc-123''\<rparr>
   \<and> is_chatgpt \<lparr>hostname = ''chatgpt.com'', pathname = ''/c/abc-123''\<rparr>
   \<and> first_segment ''/c/'' idChar ''/c/abc-123'' [] ''abc-123'' []"
  by code_simp

lemma rules_example_tab:
  "URL_new (url_string example_tab) = Inr \<lparr>hostname = ''example.com'', pathname = ''/page''\<rparr>
   \<and> \<not> is_gdoc \<lparr>hostname = ''example.com'', pathname = ''/page''\<rparr>
   \<and> \<not> is_gsheet \<lparr>hostname = ''example.com'', pathname = ''/page''\<rparr>
   \<and> \<not> is_office \<lparr>hostname = ''example.com'', pathname = ''/page''\<rparr>
   \<and> \<not> is_claude \<lparr>hostname = ''example.com'', pathname = ''/page''\<rparr>
   \<and> \<not> is_chatgpt \<lparr>hostname = ''example.com'', pathname = ''/page''\<rparr>"
  by code_simp

lemma rules_slides_tab:
  "URL_new (url_string slides_tab)
     = Inr \<lparr>hostname = ''docs.google.com'', pathname = ''/presentation/d/abc/edit''\<rparr>
   \<and> \<not> is_gdoc \<lparr>hostname = ''docs.google.com'', pathname = ''/presentation/d/abc/edit''\<rparr>
   \<and> \<not> is_gsheet \<lparr>hostname = ''docs.google.com'', pathname = ''/presentation/d/abc/edit''\<rparr>
   \<and> \<not> is_office \<lparr>hostname = ''docs.google.com'', pathname = ''/presentation/d/abc/edit''\<rparr>
   \<and> \<not> is_claude \<lparr>hostname = ''docs.google.com'', pathname = ''/presentation/d/abc/edit''\<rparr>
   \<and> \<not> is_chatgpt \<lparr>hostname = ''docs.google.com'', pathname = ''/presentation/d/abc/edit''\<rparr>"
  by code_simp

lemma rules_claude_new_tab:
  "URL_new (url_string claude_new_tab) = Inr \<lparr>hostname = ''claude.ai'', pathname = ''/new''\<rparr>
   \<and> \<not> is_gdoc \<lparr>hostname = ''claude.ai'', pathname = ''/new''\<rparr>
   \<and> \<not> is_gsheet \<lparr>hostname = ''claude.ai'', pathname = ''/new''\<rparr>
   \<and> \<not> is_office \<lparr>hostname = ''claude.ai'', pathname = ''/new''\<rparr>
   \<and> \<not> is_claude \<lparr>hostname = ''claude.ai'', pathname = ''/new''\<rparr>
   \<and> \<not> is_chatgpt \<lparr>hostname = ''claude.ai'', pathname = ''/new''\<rparr>"
  by code_simp

theorem generateDocKey_rules_witness:
  "generateDocKey gdoc_tab = Inr ''gdoc_XYZ123''
   \<and> generateDocKey workspace_tab = Inr ''gdoc_XYZ123''
   \<and> generateDocKey gsheet_tab = Inr ''gsheet_a-b_c''
   \<and> generateDocKey office_tab = Inr ''office_launch_word''
   \<and> generateDocKey claude_tab = Inr ''claude_abc123''
   \<and> generateDocKey chatgpt_tab = Inr ''chatgpt_abc-123''
   \<and> generateDocKey example_tab = Inr ''domain_example.com''
   \<and> generateDocKey slides_tab = Inr ''domain_docs.google.com''
   \<and> generateDocKey claude_new_tab = Inr ''domain_claude.ai''"
proof -
  have 1: "generateDocKey gdoc_tab = Inr ''gdoc_XYZ123''"
    using generateDocKey_rules[OF rules_gdoc_tab[THEN conjunct1],
        where pre = "[]" and ident = "''XYZ123''" and post = "''/edit''"]
      rules_gdoc_tab by simp
  have 2: "generateDocKey workspace_tab = Inr ''gdoc_XYZ123''"
    using generateDocKey_rules[OF rules_workspace_tab[THEN conjunct1],
        where pre = "''/a/example.com''" and ident = "''XYZ123''" and post = "''/edit''"]
      rules_workspace_tab by simp
  have 3: "generateDocKey gsheet_tab = Inr ''gsheet_a-b_c''"
    using generateDocKey_rules[OF rules_gsheet_tab[THEN conjunct1],
        where pre = "[]" and ident = "''a-b_c''" and post = "''/edit''"]
      rules_gsheet_tab by simp
  have 4: "generateDocKey office_tab = Inr ''office_launch_word''"
    using generateDocKey_rules[OF rules_office_tab[THEN conjunct1],
        where pre = "[]" and app = "''launch''" and ident = "''word''" and post = "[]"]
      rules_office_tab by simp
  have 5: "generateDocKey claude_tab = Inr ''claude_abc123''"
    using generateDocKey_rules[OF rules_claude_tab[THEN conjunct1],
        where pre = "[]" and ident = "''abc123''" and post = "[]"]
      rules_claude_tab by simp
  have 6: "generateDocKey chatgpt_tab = Inr ''chatgpt_abc-123''"
    using generateDocKey_rules[OF rules_chatgpt_tab[THEN conjunct1],
        where pre = "[]" and ident = "''abc-123''" and post = "[]"]
      rules_chatgpt_tab by simp
  have 7: "generateDocKey example_tab = Inr ''domain_example.com''"
    using generateDocKey_rules[OF rules_example_tab[THEN conjunct1]] rules_example_tab
    by simp
  have 8: "generateDocKey slides_tab = Inr ''domain_docs.google.com''"
    using generateDocKey_rules[OF rules_slides_tab[THEN conjunct1]] rules_slides_tab
    by simp
  have 9: "generateDocKey claude_new_tab = Inr ''domain_claude.ai''"
    using generateDocKey_rules[OF rules_claude_new_tab[THEN conjunct1]] rules_claude_new_tab
    by simp
  from 1 2 3 4 5 6 7 8 9 show ?thesis by simp
qed

theorem generateDocKey_chat_counterexample:
  "URL_new (url_string chatgpt_tab) = Inr \<lparr>hostname = ''chatgpt.com'', pathname = ''/c/abc-123''\<rparr>
   \<and> generateDocKey chatgpt_tab = Inr ''chatgpt_abc-123''
   \<and> generateDocKey chatgpt_tab \<noteq> Inr (''domain_'' @ ''chatgpt.com'')"
  by code_simp

text \<open>
  C5. The popup resolves keys with its own copy of \<^verbatim>\<open>generateDocKey\<close>, which lacks
  the two chat branches of the background script's: for a Claude conversation the tracker
  records under \<^verbatim>\<open>claude_abc123\<close> and the popup looks up \<^verbatim>\<open>domain_claude.ai\<close>.
\<close>

theorem generateDocKey_popup_differs:
  "generateDocKey claude_tab = Inr ''claude_abc123''
   \<and> popup_generateDocKey claude_tab = Inr ''domain_claude.ai''"
  by code_simp

text \<open>Away from the three chat domains the two copies agree.\<close>

lemma popup_generateDocKey_agrees:
  assumes "URL_new (url_string t) = Inr url"
    and "\<not> str_includes (hostname url) ''claude.ai''"
    and "\<not> str_includes (hostname url) ''chat.openai.com''"
    and "\<not> str_includes (hostname url) ''chatgpt.com''"
  shows "popup_generateDocKey t = generateDocKey t"
  using assms by (auto simp: popup_generateDocKey_def generateDocKey_def docKeyOfURL_def
      popup_docKeyOfURL_def split: option.splits)

section \<open>The poller\<close>

text \<open>
  C7, as the code has it. On a tick whose active tab is trackable the tab's accumulator
  goes up by exactly one second and no other accumulator changes. While the accumulated
  seconds are below \<^verbatim>\<open>MIN_RECORD_SECONDS\<close> (10) the store is untouched. At or past the
  threshold the tick calls \<^verbatim>\<open>recordSession\<close>: when the tab's URL resolves to a key, one
  session of exactly 1000 ms is appended, whatever has accumulated; when the resolver
  throws on the tab's URL, nothing is recorded on that tick.
\<close>

theorem trackActiveTab_tick:
  assumes "trackable activeTab" and "tab_id activeTab = Some tabId"
  shows "let sys' = trackActiveTab (activeTab # others) today clk sys
         in accumulatedSeconds sys' tabId = accumulatedSeconds sys tabId + 1
          \<and> (\<forall>other. other \<noteq> tabId \<longrightarrow> tabAccumulatedTime sys' other = tabAccumulatedTime sys other)
          \<and> (accumulatedSeconds sys' tabId < MIN_RECORD_SECONDS \<longrightarrow> db sys' = db sys)
          \<and> (MIN_RECORD_SECONDS \<le> accumulatedSeconds sys' tabId \<longrightarrow>
               (\<forall>docKey. generateDocKey activeTab = Inr docKey \<longrightarrow>
                  sessions (db sys') = sessions (db sys) @
                    [\<lparr>ses_id = nextId (db sys), ses_docKey = docKey, ses_date = today,
                      ses_durationMs = 1000, ses_timestamp = clock_timestamp clk\<rparr>])
               \<and> (\<forall>e. generateDocKey activeTab = Inl e \<longrightarrow> db sys' = db sys))"
  using assms
  by (auto simp: trackActiveTab_def trackable_def accumulatedSeconds_def Let_def
      recordSession_def db_recordSession_def
      split: option.splits sum.splits)


lemma trackable_example_tab: "trackable example_tab \<and> tab_id example_tab = Some 7"
  by (simp add: trackable_def example_tab_def internalUrl_def)

lemma trackable_malformed_tab: "trackable malformed_tab \<and> tab_id malformed_tab = Some 11"
  by (simp add: trackable_def malformed_tab_def internalUrl_def)

lemma generateDocKey_malformed_tab: "generateDocKey malformed_tab = Inl TypeError"
  by code_simp

lemma generateDocKey_example_tab: "generateDocKey example_tab = Inr ''domain_example.com''"
  by code_simp

theorem trackActiveTab_tick_witness:
  "trackable example_tab \<and> tab_id example_tab = Some 7
   \<and> accumulatedSeconds idle_system 7 = 0
   \<and> accumulatedSeconds (trackActiveTab [example_tab] ''2024-01-08'' example_clock idle_system) 7 = 1
   \<and> db (trackActiveTab [example_tab] ''2024-01-08'' example_clock idle_system) = db idle_system
   \<and> accumulatedSeconds busy_system 7 = 9
   \<and> accumulatedSeconds (trackActiveTab [example_tab] ''2024-01-08'' example_clock busy_system) 7 = 10
   \<and> generateDocKey example_tab = Inr ''domain_example.com''
   \<and> map ses_durationMs
        (sessions (db (trackActiveTab [example_tab] ''2024-01-08'' example_clock busy_system)))
       = [1000]
   \<and> trackable malformed_tab \<and> tab_id malformed_tab = Some 11
   \<and> generateDocKey malformed_tab = Inl TypeError
   \<and> accumulatedSeconds (trackActiveTab [malformed_tab] ''2024-01-08'' example_clock stuck_system) 11
       = 10
   \<and> db (trackActiveTab [malformed_tab] ''2024-01-08'' example_clock stuck_system)
       = db stuck_system"
proof -
  have a0: "accumulatedSeconds idle_system 7 = 0"
    by (simp add: accumulatedSeconds_def idle_system_def)
  have a9: "accumulatedSeconds busy_system 7 = 9"
    by (simp add: accumulatedSeconds_def busy_system_def)
  have b9: "accumulatedSeconds stuck_system 11 = 9"
    by (simp add: accumulatedSeconds_def stuck_system_def)
  have s0: "sessions (db busy_system) = []"
    by (simp add: busy_system_def emptyStore_def)
  note t = trackable_example_tab[THEN conjunct1] trackable_example_tab[THEN conjunct2]
  note m = trackable_malformed_tab[THEN conjunct1] trackable_malformed_tab[THEN conjunct2]
  from trackActiveTab_tick[OF t, of "[]" "''2024-01-08''" example_clock idle_system] a0
  have idle: "accumulatedSeconds
                (trackActiveTab [example_tab] ''2024-01-08'' example_clock idle_system) 7 = 1
              \<and> db (trackActiveTab [example_tab] ''2024-01-08'' example_clock idle_system)
                  = db idle_system"
    by (simp add: Let_def MIN_RECORD_SECONDS_def)
  from trackActiveTab_tick[OF t, of "[]" "''2024-01-08''" example_clock busy_system] a9
    generateDocKey_example_tab s0
  have busy: "accumulatedSeconds
                (trackActiveTab [example_tab] ''2024-01-08'' example_clock busy_system) 7 = 10
              \<and> map ses_durationMs
                   (sessions (db (trackActiveTab [example_tab] ''2024-01-08'' example_clock
                                    busy_system))) = [1000]"
    by (simp add: Let_def MIN_RECORD_SECONDS_def)
  from trackActiveTab_tick[OF m, of "[]" "''2024-01-08''" example_clock stuck_system] b9
    generateDocKey_malformed_tab
  have stuck: "accumulatedSeconds
                 (trackActiveTab [malformed_tab] ''2024-01-08'' example_clock stuck_system) 11 = 10
               \<and> db (trackActiveTab [malformed_tab] ''2024-01-08'' example_clock stuck_system)
                   = db stuck_system"
    by (simp add: Let_def MIN_RECORD_SECONDS_def)
  from idle busy stuck a0 a9 trackable_example_tab generateDocKey_example_tab
    trackable_malformed_tab generateDocKey_malformed_tab
  show ?thesis by simp
qed

lemma trackable_blank_tab: "trackable blank_tab \<and> tab_id blank_tab = Some 17"
  by (simp add: trackable_def blank_tab_def internalUrl_def)

lemma generateDocKey_blank_tab: "generateDocKey blank_tab = Inl TypeError"
  by code_simp

theorem trackActiveTab_unparseable_counterexample:
  "trackable blank_tab
   \<and> accumulatedSeconds blank_system 17 = 9
   \<and> accumulatedSeconds (trackActiveTab [blank_tab] ''2024-01-08'' example_clock blank_system) 17
       = 10
   \<and> MIN_RECORD_SECONDS \<le> 10
   \<and> sessions (db (trackActiveTab [blank_tab] ''2024-01-08'' example_clock blank_system)) = []"
proof -
  have a: "accumulatedSeconds blank_system 17 = 9"
    by (simp add: accumulatedSeconds_def blank_system_def)
  have d: "db (trackActiveTab [blank_tab] ''2024-01-08'' example_clock blank_system)
             = db blank_system"
    by (rule db_trackActiveTab_unresolved[OF generateDocKey_blank_tab])
  have s: "sessions (db blank_system) = []"
    by (simp add: blank_system_def emptyStore_def)
  have n: "accumulatedSeconds
             (trackActiveTab [blank_tab] ''2024-01-08'' example_clock blank_system) 17 = 10"
    by (simp add: trackActiveTab_def blank_tab_def blank_system_def internalUrl_def
        accumulatedSeconds_def MIN_RECORD_SECONDS_def Let_def split: sum.splits)
  from a d s n trackable_blank_tab show ?thesis
    by (simp add: MIN_RECORD_SECONDS_def)
qed

text \<open>
  C3, as the code has it. The tab-activated listener resets every accumulator. The
  tab-removed listener discards the accumulator of the removed tab only; every other
  tab's accumulation goes on. Neither touches the store.
\<close>

theorem tab_listeners:
  "tabAccumulatedTime (onActivated sys) = Map.empty
   \<and> db (onActivated sys) = db sys
   \<and> tabAccumulatedTime (onRemoved tabId sys) tabId = None
   \<and> (\<forall>other. other \<noteq> tabId \<longrightarrow>
          tabAccumulatedTime (onRemoved tabId sys) other = tabAccumulatedTime sys other)
   \<and> db (onRemoved tabId sys) = db sys"
  by (simp add: onActivated_def onRemoved_def)

theorem tab_listeners_witness:
  "(7::int) \<noteq> 8
   \<and> accumulatedSeconds (onActivated busy_system) 7 = 0
   \<and> accumulatedSeconds (onRemoved 8 busy_system) 8 = 0
   \<and> accumulatedSeconds (onRemoved 8 busy_system) 7 = accumulatedSeconds busy_system 7"
  using tab_listeners[of busy_system 8]
  by (simp add: accumulatedSeconds_def)

theorem onRemoved_keeps_others_counterexample:
  "accumulatedSeconds busy_system 7 = 9
   \<and> accumulatedSeconds (onRemoved 8 busy_system) 7 = 9
   \<and> tabAccumulatedTime (onRemoved 8 busy_system) 7 \<noteq> None"
  by (simp add: accumulatedSeconds_def onRemoved_def busy_system_def)

section \<open>Week buckets\<close>

text \<open>
  C9. \<^verbatim>\<open>getWeekKey\<close> parses the date as midnight UTC, steps back to Sunday by the
  \<^emph>\<open>local\<close> day of the week and prints the result in UTC again. In a zone west of
  Greenwich (here UTC-5) midnight UTC is the evening before: Sunday 2024-01-07 is filed
  under Monday 2024-01-01, and the Monday after it, 2024-01-08, under itself, so the two
  consecutive days of one week land in two buckets. In UTC they share the bucket of the
  Sunday.
\<close>

theorem getWeekKey_west_of_Greenwich:
  "getWeekKey (- 18000000) ''2024-01-07'' = Inr ''2024-01-01''
   \<and> getWeekKey (- 18000000) ''2024-01-08'' = Inr ''2024-01-08''
   \<and> getTimeBreakdown (- 18000000) ''gdoc_abc'' ''week'' week_store
       = Inr [(''2024-01-01'', 1000), (''2024-01-08'', 1000)]
   \<and> getWeekKey 0 ''2024-01-07'' = Inr ''2024-01-07''
   \<and> getWeekKey 0 ''2024-01-08'' = Inr ''2024-01-07''
   \<and> getTimeBreakdown 0 ''gdoc_abc'' ''week'' week_store = Inr [(''2024-01-07'', 2000)]"
  by code_simp

end
